theory Spec2Isabelle
  imports Main "HOL-Library.Sublist"
begin

section \<open>ShapeTree: containers, schema trees, caching fetch and the fetch dispatcher\<close>

text \<open>
  A shallow embedding of \<^verbatim>\<open>lib/shape-tree.js\<close>, of \<^verbatim>\<open>cachingFetch\<close> in the
  SimpleApps ecosystem and of the dispatcher \<^verbatim>\<open>lib/shape-tree-fetch.js\<close>.
  The library is a function of its collaborators
  (\<^verbatim>\<open>ShapeTreeFunctions (fileSystem, rdfInterface, fetch)\<close>), so the storage and
  the RDF interface are parameters of the model as well.
\<close>

subsection \<open>RDF terms, quads and the N3 store\<close>

text \<open>
  An RDFJS term carries its kind and its \<^verbatim>\<open>value\<close>; a literal also carries its
  datatype IRI or language tag, and two literals are the same term only when both
  agree. All quads of this library live in the default graph, so a quad is its
  subject, predicate and object. An \<^verbatim>\<open>N3.Store\<close> holds each quad at most once and
  answers \<^verbatim>\<open>getQuads\<close> in its own index order: the store is a duplicate-free
  list and \<^verbatim>\<open>getQuads\<close> keeps its order.
\<close>

datatype rdf_term = NamedNode string | Literal string string | BlankNode string

fun term_value :: "rdf_term \<Rightarrow> string" where
  "term_value (NamedNode v) = v"
| "term_value (Literal v d) = v"
| "term_value (BlankNode v) = v"

text \<open>\<^verbatim>\<open>DataFactory.literal(value)\<close> with no second argument: an \<^verbatim>\<open>xsd:string\<close>.\<close>

definition literal :: "string \<Rightarrow> rdf_term" where
  "literal v = Literal v ''http://www.w3.org/2001/XMLSchema#string''"

record quad =
  subject :: rdf_term
  predicate :: rdf_term
  object :: rdf_term

type_synonym store = "quad list"

definition mk_quad :: "rdf_term \<Rightarrow> rdf_term \<Rightarrow> rdf_term \<Rightarrow> quad" where
  "mk_quad s p o' = \<lparr>subject = s, predicate = p, object = o'\<rparr>"

text \<open>\<^verbatim>\<open>null\<close> in a position of \<^verbatim>\<open>getQuads\<close> is a wildcard: \<open>None\<close>.\<close>

definition matches :: "rdf_term option \<Rightarrow> rdf_term \<Rightarrow> bool" where
  "matches pat t = (case pat of None \<Rightarrow> True | Some x \<Rightarrow> x = t)"

definition getQuads :: "store \<Rightarrow> rdf_term option \<Rightarrow> rdf_term option \<Rightarrow> rdf_term option \<Rightarrow> quad list" where
  "getQuads g s p o' =
     filter (\<lambda>q. matches s (subject q) \<and> matches p (predicate q) \<and> matches o' (object q)) g"

definition addQuad :: "store \<Rightarrow> quad \<Rightarrow> store" where
  "addQuad g q = (if q \<in> set g then g else g @ [q])"

definition removeQuad :: "store \<Rightarrow> quad \<Rightarrow> store" where
  "removeQuad g q = filter (\<lambda>x. x \<noteq> q) g"

definition addQuads :: "store \<Rightarrow> quad list \<Rightarrow> store" where
  "addQuads g qs = fold (\<lambda>q acc. addQuad acc q) qs g"

subsection \<open>Namespaces\<close>

text \<open>
  Modelled from the spec: the namespace constants \<^verbatim>\<open>ns_ldp\<close>, \<^verbatim>\<open>ns_rdfs\<close> and
  \<^verbatim>\<open>ns_tree\<close> of \<^verbatim>\<open>lib/prefixes\<close>, which is not among the sources. The LDP
  namespace is the one the source's own Turtle text declares; no property below
  depends on the three values.
\<close>

definition ns_ldp :: string where
  "ns_ldp = ''http://www.w3.org/ns/ldp#''"

definition ns_rdfs :: string where
  "ns_rdfs = ''http://www.w3.org/2000/01/rdf-schema#''"

definition ns_tree :: string where
  "ns_tree = ''http://www.w3.org/ns/shapetree#''"

definition tree_pred :: "string \<Rightarrow> rdf_term" where
  "tree_pred property = NamedNode (ns_tree @ property)"

subsection \<open>URLs\<close>

text \<open>
  A WHATWG \<^verbatim>\<open>URL\<close> object, by its components; \<^verbatim>\<open>href\<close> is their serialisation.
  \<^verbatim>\<open>protocol\<close> ends in a colon, \<^verbatim>\<open>search\<close> and \<^verbatim>\<open>hash\<close> are empty or start with
  \<^verbatim>\<open>?\<close> and \<^verbatim>\<open>#\<close>.
\<close>

record url =
  protocol :: string
  host :: string
  pathname :: string
  search :: string
  hash :: string

definition href :: "url \<Rightarrow> string" where
  "href u = protocol u @ ''//'' @ host u @ pathname u @ search u @ hash u"

text \<open>
  What a caller may pass where a URL is expected: a \<^verbatim>\<open>URL\<close> object, or any other
  JavaScript value, kept as the text a template literal prints for it.
\<close>

datatype url_arg = UrlObject url | NotUrl string

fun show_url_arg :: "url_arg \<Rightarrow> string" where
  "show_url_arg (UrlObject u) = href u"
| "show_url_arg (NotUrl s) = s"

definition endsWith :: "string \<Rightarrow> string \<Rightarrow> bool" where
  "endsWith s x = suffix x s"

subsection \<open>Errors\<close>

text \<open>
  \<^verbatim>\<open>Error\<close> is a plain JavaScript error with its message (also what a storage
  throws); \<^verbatim>\<open>TypeError\<close> and \<^verbatim>\<open>URIError\<close> are the runtime's. The other
  constructors are the classes of \<^verbatim>\<open>rdf-errors\<close> that the modelled code
  constructs, with the constructor's arguments: \<^verbatim>\<open>NotFoundError\<close> also carries the
  \<^verbatim>\<open>status\<close> its thrower assigns, and the constant \<^verbatim>\<open>[]\<close> handed to
  \<^verbatim>\<open>UriTemplateMatchError\<close> is left out.
\<close>

datatype error =
    Error string
  | TypeError string
  | URIError string
  | NotFoundError string string string nat
  | UriTemplateMatchError "string option" string
  | ShapeTreeStructureError string string

text \<open>
  Modelled from the spec: \<^verbatim>\<open>rdfInterface.zeroOrOne\<close>, whose module
  (\<^verbatim>\<open>rdf-serializer\<close>) is not among the sources. It is the zero-or-one triple
  lookup helper of the RDF capability: \<^verbatim>\<open>null\<close> when no quad matches, the quad when
  one does; several matches are an error, whose text the spec does not give.
\<close>

definition zeroOrOne :: "store \<Rightarrow> rdf_term option \<Rightarrow> rdf_term option \<Rightarrow> rdf_term option \<Rightarrow> error + quad option" where
  "zeroOrOne g s p o' =
     (case getQuads g s p o' of
        [] \<Rightarrow> Inr None
      | [q] \<Rightarrow> Inr (Some q)
      | _ \<Rightarrow> Inl (Error ''expected zero or one match''))"

subsection \<open>Container\<close>

text \<open>
  The second argument of the constructor is a title, or the array
  \<^verbatim>\<open>[graph, prefixes]\<close> of a container that was read already.
\<close>

type_synonym prefixes = "(string \<times> string) list"

datatype title_arg = Title string | Loaded store prefixes

text \<open>
  A field of an object was never assigned, holds \<^verbatim>\<open>null\<close>, or holds a value.
\<close>

datatype 'a field = Undefined | Null | Value 'a

text \<open>
  A \<^verbatim>\<open>Container\<close> object, or a \<^verbatim>\<open>ManagedContainer\<close>, which extends it by the three
  fields of the ShapeTree binding: one record with the class of the object, as
  \<^verbatim>\<open>instanceof\<close> reads it. \<^verbatim>\<open>subdirs\<close> holds what the recursive instantiation
  returned for each child: a container, kept by its URL, or \<^verbatim>\<open>undefined\<close>.
  \<^verbatim>\<open>newDir\<close> is set by the first load.
\<close>

datatype container_class = PlainContainer | ManagedContainer

record container =
  c_class :: container_class
  c_url :: url
  c_prefixes :: prefixes
  c_graph :: store
  c_subdirs :: "url option list"
  c_newDir :: "bool option"
  shapeTreeUrl :: "url field"
  shapeTreeInstancePath :: "string field"
  shapeTreeInstanceRoot :: "url field"

text \<open>
  The synchronous part of \<^verbatim>\<open>new Container(url, title)\<close>: the three checks, then the
  fields. A throw leaves no object behind: the result is the error alone.
\<close>

definition Container_new :: "url_arg \<Rightarrow> title_arg \<Rightarrow> error + container" where
  "Container_new u title =
     (case u of
        NotUrl s \<Rightarrow> Inl (Error (''url '' @ s @ '' must be an instance of URL''))
      | UrlObject x \<Rightarrow>
          if \<not> endsWith (pathname x) ''/''
          then Inl (Error (''url '' @ href x @ '' must end with '' @ [CHR 0x27] @ ''/'' @ [CHR 0x27]))
          else if endsWith (pathname x) ''//''
          then Inl (Error (''url '' @ href x @ '' ends with '' @ [CHR 0x27] @ ''//'' @ [CHR 0x27]))
          else Inr \<lparr>c_class = PlainContainer,
                    c_url = x,
                    c_prefixes = (case title of Loaded g p \<Rightarrow> p | Title t \<Rightarrow> []),
                    c_graph = (case title of Loaded g p \<Rightarrow> g | Title t \<Rightarrow> []),
                    c_subdirs = [],
                    c_newDir = None,
                    shapeTreeUrl = Undefined,
                    shapeTreeInstancePath = Undefined,
                    shapeTreeInstanceRoot = Undefined\<rparr>)"

definition contains_quad :: "url \<Rightarrow> string \<Rightarrow> quad" where
  "contains_quad u location =
     mk_quad (NamedNode (href u)) (NamedNode (ns_ldp @ ''contains'')) (NamedNode location)"

definition addMember :: "container \<Rightarrow> string \<Rightarrow> container" where
  "addMember c location = c\<lparr>c_graph := addQuad (c_graph c) (contains_quad (c_url c) location)\<rparr>"

definition removeMember :: "container \<Rightarrow> string \<Rightarrow> container" where
  "removeMember c location = c\<lparr>c_graph := removeQuad (c_graph c) (contains_quad (c_url c) location)\<rparr>"


subsection \<open>The lock of a container\<close>

text \<open>
  The promises of \<^verbatim>\<open>Mutex\<close>. \<^verbatim>\<open>_locking\<close> starts as \<^verbatim>\<open>Promise.resolve()\<close>, and each
  \<^verbatim>\<open>lock()\<close> replaces it by \<^verbatim>\<open>_locking.then(() => willLock)\<close>, which is resolved
  once the old \<^verbatim>\<open>_locking\<close> is and the new \<^verbatim>\<open>willLock\<close> is. The \<^verbatim>\<open>willLock\<close>
  promises are numbered in the order of their making; the mutex keeps, for each,
  whether its \<^verbatim>\<open>unlockNext\<close> has resolved it.
\<close>

datatype promise = Resolved | Then promise nat

record mutex =
  m_locking :: promise
  m_locks :: int
  m_willLock :: "bool list"

fun resolved :: "bool list \<Rightarrow> promise \<Rightarrow> bool" where
  "resolved wl Resolved = True"
| "resolved wl (Then p k) = (resolved wl p \<and> k < length wl \<and> wl ! k)"

definition Mutex_new :: mutex where
  "Mutex_new = \<lparr>m_locking = Resolved, m_locks = 0, m_willLock = []\<rparr>"

text \<open>
  \<^verbatim>\<open>lock()\<close> returns \<^verbatim>\<open>willUnlock = _locking.then(() => unlockNext)\<close>: a promise
  that is resolved once the \<^verbatim>\<open>_locking\<close> it was made from is, here that promise
  with the number of the \<^verbatim>\<open>unlockNext\<close> it hands over.
\<close>

definition lock :: "mutex \<Rightarrow> (promise \<times> nat) \<times> mutex" where
  "lock m =
     (let k = length (m_willLock m)
      in ((m_locking m, k),
          m\<lparr>m_locks := m_locks m + 1,
            m_willLock := m_willLock m @ [False],
            m_locking := Then (m_locking m) k\<rparr>))"

definition unlockNext :: "nat \<Rightarrow> mutex \<Rightarrow> mutex" where
  "unlockNext k m = m\<lparr>m_locks := m_locks m - 1, m_willLock := (m_willLock m)[k := True]\<rparr>"

text \<open>
  The methods of a container that take its lock. Each call takes the lock once,
  waits for \<^verbatim>\<open>willUnlock\<close>, runs its storage call, and is finished with the outcome
  of that call. \<^verbatim>\<open>write\<close> and \<^verbatim>\<open>remove\<close> call \<^verbatim>\<open>unlock()\<close> in both handlers of the
  storage promise; \<^verbatim>\<open>loadOrCreate\<close> calls it after the storage call only, so not
  when that call throws.
\<close>

datatype operation = Write | Remove | LoadOrCreate

datatype phase = Waiting | Holding | Finished bool

record call =
  c_op :: operation
  c_willUnlock :: promise
  c_unlock :: nat
  c_phase :: phase

datatype section_event = Enter nat | Leave nat

record lock_state =
  l_mutex :: mutex
  l_calls :: "call list"
  l_trace :: "section_event list"

text \<open>
  What can happen at one container: a method is called, which takes the lock at
  once; a waiting call whose \<^verbatim>\<open>willUnlock\<close> is resolved resumes and enters its
  critical section; the storage call of a call in its critical section settles,
  well or with an error. The trace records where critical sections start and
  where they end with the release of the lock.
\<close>

datatype event = Call operation | Resume nat | Settle nat bool

definition releases :: "operation \<Rightarrow> bool \<Rightarrow> bool" where
  "releases operation ok = (ok \<or> operation \<noteq> LoadOrCreate)"

fun exec :: "event \<Rightarrow> lock_state \<Rightarrow> lock_state option" where
  "exec (Call operation) s =
     (case lock (l_mutex s) of
        ((willUnlock, k), m) \<Rightarrow>
          Some (s\<lparr>l_mutex := m,
                  l_calls := l_calls s @ [\<lparr>c_op = operation, c_willUnlock = willUnlock, c_unlock = k, c_phase = Waiting\<rparr>]\<rparr>))"
| "exec (Resume i) s =
     (if i < length (l_calls s) \<and> c_phase (l_calls s ! i) = Waiting
         \<and> resolved (m_willLock (l_mutex s)) (c_willUnlock (l_calls s ! i))
      then Some (s\<lparr>l_calls := (l_calls s)[i := (l_calls s ! i)\<lparr>c_phase := Holding\<rparr>],
                   l_trace := l_trace s @ [Enter i]\<rparr>)
      else None)"
| "exec (Settle i ok) s =
     (if i < length (l_calls s) \<and> c_phase (l_calls s ! i) = Holding
      then (if releases (c_op (l_calls s ! i)) ok
            then Some (s\<lparr>l_mutex := unlockNext (c_unlock (l_calls s ! i)) (l_mutex s),
                         l_calls := (l_calls s)[i := (l_calls s ! i)\<lparr>c_phase := Finished ok\<rparr>],
                         l_trace := l_trace s @ [Leave i]\<rparr>)
            else Some (s\<lparr>l_calls := (l_calls s)[i := (l_calls s ! i)\<lparr>c_phase := Finished ok\<rparr>]\<rparr>))
      else None)"

fun run :: "event list \<Rightarrow> lock_state \<Rightarrow> lock_state option" where
  "run [] s = Some s"
| "run (e # es) s = (case exec e s of None \<Rightarrow> None | Some s' \<Rightarrow> run es s')"

definition initial :: lock_state where
  "initial = \<lparr>l_mutex = Mutex_new, l_calls = [], l_trace = []\<rparr>"

text \<open>
  The value of \<^verbatim>\<open>_locking\<close> after \<open>k\<close> calls of \<^verbatim>\<open>lock()\<close>; the trace of \<open>n\<close> critical
  sections that ran one after the other in the order of the calls; the calls that
  have released the lock, and those that ended without releasing it.
\<close>

fun chain :: "nat \<Rightarrow> promise" where
  "chain 0 = Resolved"
| "chain (Suc k) = Then (chain k) k"

definition serial_trace :: "nat \<Rightarrow> section_event list" where
  "serial_trace n = concat (map (\<lambda>i. [Enter i, Leave i]) [0..<n])"

definition released :: "call \<Rightarrow> bool" where
  "released c = (case c_phase c of Finished ok \<Rightarrow> releases (c_op c) ok | _ \<Rightarrow> False)"

definition stuck :: "call \<Rightarrow> bool" where
  "stuck c = (case c_phase c of Finished ok \<Rightarrow> \<not> releases (c_op c) ok | _ \<Rightarrow> False)"

text \<open>The invariant of the runs: the calls before the \<open>n\<close>-th have released the lock,
  those after it wait, and the \<open>n\<close>-th waits, holds the lock or ended without releasing it.\<close>

definition lock_inv :: "lock_state \<Rightarrow> bool" where
  "lock_inv s =
     (let cs = l_calls s; m = l_mutex s in
      m_willLock m = map released cs
      \<and> m_locking m = chain (length cs)
      \<and> (\<forall>i<length cs. c_unlock (cs ! i) = i \<and> c_willUnlock (cs ! i) = chain i)
      \<and> (\<exists>n\<le>length cs.
            (\<forall>i<n. released (cs ! i))
            \<and> (\<forall>i<length cs. n < i \<longrightarrow> c_phase (cs ! i) = Waiting)
            \<and> ((l_trace s = serial_trace n \<and> (n < length cs \<longrightarrow> c_phase (cs ! n) = Waiting))
               \<or> (l_trace s = serial_trace n @ [Enter n] \<and> n < length cs
                   \<and> (c_phase (cs ! n) = Holding \<or> stuck (cs ! n))))))"

subsection \<open>Storage and RDF collaborators\<close>

text \<open>
  The \<^verbatim>\<open>fileSystem\<close> argument of the library, over a storage state \<open>'st\<close>. Each
  operation returns its result, or the error it throws, and the storage state it
  leaves. \<^verbatim>\<open>ensureContainer\<close> and \<^verbatim>\<open>readContainer\<close> fill the prefixes object they
  are handed, so they return it too. \<^verbatim>\<open>rstat\<close> describes a resource and throws for
  one that is missing; of its description only \<^verbatim>\<open>isContainer\<close> is kept.
\<close>

record 'st storage =
  ensureContainer :: "url \<Rightarrow> prefixes \<Rightarrow> string \<Rightarrow> 'st \<Rightarrow> (error + bool \<times> store \<times> prefixes) \<times> 'st"
  readContainer :: "url \<Rightarrow> prefixes \<Rightarrow> 'st \<Rightarrow> (error + store \<times> prefixes) \<times> 'st"
  writeContainer :: "store \<Rightarrow> url \<Rightarrow> prefixes \<Rightarrow> 'st \<Rightarrow> (error + unit) \<times> 'st"
  removeContainer :: "url \<Rightarrow> 'st \<Rightarrow> (error + unit) \<times> 'st"
  rstat :: "url \<Rightarrow> 'st \<Rightarrow> error + bool"

text \<open>
  What the library takes from the platform and from \<^verbatim>\<open>rdfInterface\<close>:
  \<^verbatim>\<open>new URL(text)\<close> and \<^verbatim>\<open>new URL(relative, base)\<close>, which throw a \<^verbatim>\<open>TypeError\<close>
  where the result here is \<open>None\<close>; \<^verbatim>\<open>Path.relative\<close> and \<^verbatim>\<open>Path.join\<close>; and
  \<^verbatim>\<open>rdfInterface.parseTurtle (text, base, prefixes)\<close>, which returns the graph and
  fills the prefixes.
\<close>

record runtime =
  URL_parse :: "string \<Rightarrow> url option"
  URL_resolve :: "string \<Rightarrow> url \<Rightarrow> url option"
  Path_relative :: "string \<Rightarrow> string \<Rightarrow> string"
  Path_join :: "string \<Rightarrow> string \<Rightarrow> string"
  parseTurtle :: "string \<Rightarrow> url \<Rightarrow> prefixes \<Rightarrow> error + store \<times> prefixes"

text \<open>
  \<^verbatim>\<open>await new Container(url, title).ready\<close>. A container built from a loaded graph
  is ready at once; otherwise \<^verbatim>\<open>loadOrCreate\<close> asks the storage to ensure the
  container, records \<^verbatim>\<open>newDir\<close> and merges the graph it got. The lock is taken
  and released inside the operation; an error of the storage rejects \<^verbatim>\<open>ready\<close>.
\<close>

definition Container_ready :: "'st storage \<Rightarrow> url_arg \<Rightarrow> title_arg \<Rightarrow> 'st \<Rightarrow> (error + container) \<times> 'st" where
  "Container_ready fs u title st =
     (case Container_new u title of
        Inl e \<Rightarrow> (Inl e, st)
      | Inr c \<Rightarrow>
          (case title of
             Loaded g p \<Rightarrow> (Inr c, st)
           | Title t \<Rightarrow>
               (case ensureContainer fs (c_url c) (c_prefixes c) t st of
                  (Inl e, st') \<Rightarrow> (Inl e, st')
                | (Inr (newDir, containerGraph, p'), st') \<Rightarrow>
                    (Inr (c\<lparr>c_prefixes := p', c_newDir := Some newDir,
                             c_graph := addQuads (c_graph c) containerGraph\<rparr>), st'))))"



subsection \<open>ManagedContainer\<close>

definition asUrl :: "runtime \<Rightarrow> store \<Rightarrow> url \<Rightarrow> string \<Rightarrow> error + url field" where
  "asUrl rt g s p =
     (case zeroOrOne g (Some (NamedNode (href s))) (Some (tree_pred p)) None of
        Inl e \<Rightarrow> Inl e
      | Inr None \<Rightarrow> Inr Null
      | Inr (Some q) \<Rightarrow>
          (case URL_parse rt (term_value (object q)) of
             None \<Rightarrow> Inl (TypeError ''Invalid URL'')
           | Some u \<Rightarrow> Inr (Value u)))"

definition asLiteral :: "store \<Rightarrow> url \<Rightarrow> string \<Rightarrow> error + string field" where
  "asLiteral g s p =
     (case zeroOrOne g (Some (NamedNode (href s))) (Some (tree_pred p)) None of
        Inl e \<Rightarrow> Inl e
      | Inr None \<Rightarrow> Inr Null
      | Inr (Some q) \<Rightarrow> Inr (Value (term_value (object q))))"

definition parseShapeTreeInstance :: "runtime \<Rightarrow> container \<Rightarrow> error + container" where
  "parseShapeTreeInstance rt c =
     (case asUrl rt (c_graph c) (c_url c) ''shapeTreeInstanceRoot'' of Inl e \<Rightarrow> Inl e | Inr root \<Rightarrow>
      case asLiteral (c_graph c) (c_url c) ''shapeTreeInstancePath'' of Inl e \<Rightarrow> Inl e | Inr path \<Rightarrow>
      case asUrl rt (c_graph c) (c_url c) ''shapeTreeRoot'' of Inl e \<Rightarrow> Inl e | Inr tree \<Rightarrow>
        Inr (c\<lparr>shapeTreeInstanceRoot := root, shapeTreeInstancePath := path, shapeTreeUrl := tree\<rparr>))"

definition containerText :: "runtime \<Rightarrow> url \<Rightarrow> string \<Rightarrow> string" where
  "containerText rt treeUrl path =
     [CHR 0x0A] @ ''@prefix dcterms: <http://purl.org/dc/terms/>.'' @ [CHR 0x0A]
     @ ''@prefix ldp: <http://www.w3.org/ns/ldp#>.'' @ [CHR 0x0A]
     @ ''@prefix tree: <'' @ ns_tree @ ''>.'' @ [CHR 0x0A, CHR 0x0A]
     @ ''<>'' @ [CHR 0x0A]
     @ ''   tree:shapeTreeRoot <'' @ href treeUrl @ ''> ;'' @ [CHR 0x0A]
     @ ''   tree:shapeTreeInstancePath '' @ [CHR 0x22] @ path @ [CHR 0x22] @ '' ;'' @ [CHR 0x0A]
     @ ''   tree:shapeTreeInstanceRoot <'' @ Path_relative rt path [] @ ''> .'' @ [CHR 0x0A]"

text \<open>
  \<^verbatim>\<open>await new ManagedContainer(url, title, shapeTreeUrl, shapeTreeInstancePath).ready\<close>.
  The constructor of \<^verbatim>\<open>Container\<close> runs first and starts its \<^verbatim>\<open>loadOrCreate\<close>, so
  the storage is asked to ensure the container even when a later step of this
  constructor throws. For a loaded graph the fields are parsed from the graph.
  Otherwise the statement \<^verbatim>\<open>this,shapeTreeUrl = shapeTreeUrl\<close> is a comma expression
  that assigns the parameter to itself: the field \<^verbatim>\<open>shapeTreeUrl\<close> is not
  assigned. The path and the root are assigned, and the second \<^verbatim>\<open>loadOrCreate\<close>
  writes the binding into a new directory or parses it from an old one.
\<close>

definition ManagedContainer_ready ::
  "runtime \<Rightarrow> 'st storage \<Rightarrow> url_arg \<Rightarrow> title_arg \<Rightarrow> url_arg \<Rightarrow> string \<Rightarrow> 'st \<Rightarrow> (error + container) \<times> 'st" where
  "ManagedContainer_ready rt fs u title treeUrl path st =
     (case Container_new u title of
        Inl e \<Rightarrow> (Inl e, st)
      | Inr c0 \<Rightarrow>
          (case title of
             Loaded g p \<Rightarrow> (parseShapeTreeInstance rt (c0\<lparr>c_class := ManagedContainer\<rparr>), st)
           | Title t \<Rightarrow>
               (let loaded = Container_ready fs u title st
                in case treeUrl of
                     NotUrl s \<Rightarrow>
                       (Inl (Error (''shapeTreeUrl '' @ s @ '' must be an instance of URL'')), snd loaded)
                   | UrlObject tu \<Rightarrow>
                       (case URL_resolve rt (Path_relative rt path []) tu of
                          None \<Rightarrow> (Inl (TypeError ''Invalid URL''), snd loaded)
                        | Some root \<Rightarrow>
                            (case loaded of
                               (Inl e, st1) \<Rightarrow> (Inl e, st1)
                             | (Inr c1, st1) \<Rightarrow>
                                 (let c = c1\<lparr>c_class := ManagedContainer,
                                              shapeTreeInstancePath := Value path,
                                              shapeTreeInstanceRoot := Value root\<rparr>
                                  in if c_newDir c = Some True then
                                       (case parseTurtle rt (containerText rt tu path) (c_url c) (c_prefixes c) of
                                          Inl e \<Rightarrow> (Inl e, st1)
                                        | Inr (s, p') \<Rightarrow>
                                            (let c' = c\<lparr>c_prefixes := p', c_graph := addQuads (c_graph c) s\<rparr>
                                             in case writeContainer fs (c_graph c') (c_url c') (c_prefixes c') st1 of
                                                  (Inl e, st2) \<Rightarrow> (Inl e, st2)
                                                | (Inr x, st2) \<Rightarrow> (Inr c', st2)))
                                     else (parseShapeTreeInstance rt c, st1)))))))"

text \<open>\<^verbatim>\<open>loadContainer (url)\<close>: read the container and build the object of its class.\<close>

definition loadContainer :: "runtime \<Rightarrow> 'st storage \<Rightarrow> url \<Rightarrow> 'st \<Rightarrow> (error + container) \<times> 'st" where
  "loadContainer rt fs u st =
     (case readContainer fs u [] st of
        (Inl e, st') \<Rightarrow> (Inl e, st')
      | (Inr (containerGraph, p), st') \<Rightarrow>
          (case asUrl rt containerGraph u ''shapeTreeInstanceRoot'' of
             Inl e \<Rightarrow> (Inl e, st')
           | Inr (Value root) \<Rightarrow>
               ManagedContainer_ready rt fs (UrlObject u) (Loaded containerGraph p) (NotUrl ''undefined'') ''undefined'' st'
           | Inr other \<Rightarrow> Container_ready fs (UrlObject u) (Loaded containerGraph p) st'))"

text \<open>The number of separators an identifier's path ends in.\<close>

definition trailing_separators :: "string \<Rightarrow> nat" where
  "trailing_separators p = length (takeWhile (\<lambda>c. c = CHR ''/'') (rev p))"

subsection \<open>Schema trees\<close>

text \<open>
  A \<^verbatim>\<open>RemoteShapeTree\<close>: the schema's URL, the cursor path and the graph that
  \<^verbatim>\<open>fetch()\<close> parsed.
\<close>

record remote_shape_tree =
  rst_url :: url
  rst_path :: string
  rst_graph :: store

text \<open>
  \<^verbatim>\<open>String.prototype.split\<close> at one separator character: there is always at
  least one piece, and the empty string splits into one empty piece.
\<close>

fun split_at :: "'a \<Rightarrow> 'a list \<Rightarrow> 'a list list" where
  "split_at c [] = [[]]"
| "split_at c (x # xs) =
     (if x = c then [] # split_at c xs
      else (case split_at c xs of
              w # ws \<Rightarrow> (x # w) # ws
            | [] \<Rightarrow> [[x]]))"

text \<open>
  The test that \<^verbatim>\<open>getRdfRoot\<close> hands to \<^verbatim>\<open>find\<close>: the child has the label
  \<^verbatim>\<open>literal(name)\<close>, or it has exactly one \<^verbatim>\<open>tree:uriTemplate\<close>.
\<close>

definition label_or_template :: "store \<Rightarrow> string \<Rightarrow> quad \<Rightarrow> bool" where
  "label_or_template g name q =
     (length (getQuads g (Some (object q)) (Some (NamedNode (ns_rdfs @ ''label''))) (Some (literal name))) = 1
      \<or> length (getQuads g (Some (object q)) (Some (tree_pred ''uriTemplate'')) None) = 1)"

text \<open>
  One step of the \<^verbatim>\<open>reduce\<close>. \<^verbatim>\<open>find\<close> gives \<^verbatim>\<open>undefined\<close> when no quad passes,
  and reading \<^verbatim>\<open>.object\<close> of it throws a \<^verbatim>\<open>TypeError\<close>.
\<close>

definition getRdfRoot_step :: "store \<Rightarrow> rdf_term \<Rightarrow> string \<Rightarrow> error + rdf_term" where
  "getRdfRoot_step g node name =
     (if name = ''.'' then Inr node
      else
        let cqz = getQuads g (Some node) (Some (tree_pred ''contents'')) None
        in (case find (label_or_template g name) cqz of
              None \<Rightarrow> Inl (TypeError ''Cannot read property object of undefined'')
            | Some q \<Rightarrow> Inr (object q)))"

fun getRdfRoot_reduce :: "store \<Rightarrow> string list \<Rightarrow> rdf_term \<Rightarrow> error + rdf_term" where
  "getRdfRoot_reduce g [] node = Inr node"
| "getRdfRoot_reduce g (name # names) node =
     (case getRdfRoot_step g node name of
        Inl e \<Rightarrow> Inl e
      | Inr n \<Rightarrow> getRdfRoot_reduce g names n)"

definition getRdfRoot :: "remote_shape_tree \<Rightarrow> error + rdf_term" where
  "getRdfRoot t =
     getRdfRoot_reduce (rst_graph t) (split_at CHR ''/'' (rst_path t)) (NamedNode (href (rst_url t)))"

text \<open>The step that \<^verbatim>\<open>matchingStep\<close> returns.\<close>

record step =
  s_node :: rdf_term
  s_typeNode :: "rdf_term option"
  s_name :: "rdf_term option"
  s_uriTemplate :: "rdf_term option"
  s_shape :: "rdf_term option"
  s_contents :: "rdf_term list"
  s_type :: "string option"

text \<open>\<^verbatim>\<open>Array.prototype.join\<close> and \<^verbatim>\<open>s.replace(pattern, '')\<close> for a string pattern,
  which deletes its first occurrence.\<close>

fun join :: "'a list \<Rightarrow> 'a list list \<Rightarrow> 'a list" where
  "join sep [] = []"
| "join sep [x] = x"
| "join sep (x # y # ys) = x @ sep @ join sep (y # ys)"



definition step_contents :: "store \<Rightarrow> rdf_term \<Rightarrow> rdf_term list" where
  "step_contents g shapeTreeNode = map object (getQuads g (Some shapeTreeNode) (Some (tree_pred ''contents'')) None)"

definition first_template :: "store \<Rightarrow> rdf_term \<Rightarrow> string option" where
  "first_template g st =
     (case map (\<lambda>q2. term_value (object q2)) (getQuads g (Some st) (Some (tree_pred ''uriTemplate'')) None) of
        [] \<Rightarrow> None
      | t # ts \<Rightarrow> Some t)"






subsection \<open>Recursive static instantiation\<close>




subsection \<open>The fetch dispatcher\<close>

text \<open>
  The value that \<^verbatim>\<open>throwIfNotFound\<close> is handed for \<^verbatim>\<open>rstat\<close>: \<^verbatim>\<open>null\<close>, the
  description of a resource, or a promise that was not awaited (with what it
  will resolve to). Of the three only \<^verbatim>\<open>null\<close> is falsy.
\<close>

datatype stat_value = StatNull | StatObject bool | StatPromise stat_value

fun truthy :: "stat_value \<Rightarrow> bool" where
  "truthy StatNull = False"
| "truthy (StatObject isContainer) = True"
| "truthy (StatPromise v) = True"

definition rstatOrNull :: "'st storage \<Rightarrow> url \<Rightarrow> 'st \<Rightarrow> stat_value" where
  "rstatOrNull fs u st = (case rstat fs u st of Inl e \<Rightarrow> StatNull | Inr isContainer \<Rightarrow> StatObject isContainer)"

definition throwIfNotFound :: "stat_value \<Rightarrow> url \<Rightarrow> string \<Rightarrow> error + unit" where
  "throwIfNotFound stat u method =
     (if truthy stat then Inr ()
      else Inl (NotFoundError (href u) ''queried resource'' (method @ '' '' @ pathname u) 404))"

text \<open>
  The response of the dispatcher, by its status and, for an error response, the
  error that its body describes.
\<close>

record fetch_response =
  resp_status :: nat
  resp_error :: "error option"

text \<open>
  The \<^verbatim>\<open>catch\<close> of the dispatcher and \<^verbatim>\<open>errorResponse\<close>: an error that is not managed
  and has no status gets 500, a not-found error has the status its thrower gave
  it, and the other managed errors carry the status of their class, which
  \<^verbatim>\<open>rdf-errors\<close> sets: \<open>class_status\<close>.
\<close>

definition errorResponse :: "(error \<Rightarrow> nat) \<Rightarrow> error \<Rightarrow> fetch_response" where
  "errorResponse class_status e =
     \<lparr>resp_status =
        (case e of
           NotFoundError u what op status \<Rightarrow> status
         | UriTemplateMatchError slug msg \<Rightarrow> class_status e
         | ShapeTreeStructureError u msg \<Rightarrow> class_status e
         | _ \<Rightarrow> 500),
      resp_error = Some e\<rparr>"

text \<open>
  \<^verbatim>\<open>new URL(requestUrl.pathname.endsWith('/') ? '..' : '.', requestUrl)\<close>: the
  container of a resource, or the container above a container.
\<close>

definition parent_url :: "url \<Rightarrow> url" where
  "parent_url u =
     (let dir = (\<lambda>p. rev (dropWhile (\<lambda>c. c \<noteq> CHR ''/'') (rev p)));
          p = pathname u;
          up = (if endsWith p ''/'' then dir (butlast p) else dir p)
      in u\<lparr>pathname := (if up = [] then ''/'' else up), search := [], hash := []\<rparr>)"

text \<open>
  \<^verbatim>\<open>shapeTreeFetch (url, options)\<close> up to the container it loads. What a verb does
  with the loaded container (planting, validation, forwarding, instantiation) is
  the parameter \<open>rest\<close>, and \<open>nextFetch\<close> is the fetch it wraps. \<open>noShapeTrees\<close>
  is the constant \<^verbatim>\<open>NoShapeTrees\<close> of the module.

  For \<^verbatim>\<open>POST\<close> the result of \<^verbatim>\<open>rstatOrNull\<close> is awaited before the check; for
  \<^verbatim>\<open>PUT\<close> the check is handed the promise that \<^verbatim>\<open>rstatOrNull (parentUrl)\<close>
  returns.
\<close>

definition load_for_dispatch :: "runtime \<Rightarrow> 'st storage \<Rightarrow> bool \<Rightarrow> url \<Rightarrow> 'st \<Rightarrow> (error + container) \<times> 'st" where
  "load_for_dispatch rt fs noShapeTrees u st =
     (if noShapeTrees then Container_ready fs (UrlObject u) (Title ''undefined'') st
      else loadContainer rt fs u st)"

definition shapeTreeFetch ::
  "runtime \<Rightarrow> 'st storage \<Rightarrow> bool \<Rightarrow> (error \<Rightarrow> nat) \<Rightarrow> (string \<Rightarrow> url \<Rightarrow> 'st \<Rightarrow> (error + fetch_response) \<times> 'st) \<Rightarrow>
   (string \<Rightarrow> container \<Rightarrow> url \<Rightarrow> 'st \<Rightarrow> (error + fetch_response) \<times> 'st) \<Rightarrow>
   string \<Rightarrow> url \<Rightarrow> 'st \<Rightarrow> fetch_response \<times> 'st" where
  "shapeTreeFetch rt fs noShapeTrees class_status nextFetch rest method requestUrl st =
     (let stat = rstatOrNull fs requestUrl st;
          outcome =
            (if method = ''POST'' then
               (case throwIfNotFound stat requestUrl method of
                  Inl e \<Rightarrow> (Inl e, st)
                | Inr x \<Rightarrow>
                    (case load_for_dispatch rt fs noShapeTrees requestUrl st of
                       (Inl e, st') \<Rightarrow> (Inl e, st')
                     | (Inr postedContainer, st') \<Rightarrow> rest method postedContainer requestUrl st'))
             else if method = ''PUT'' then
               (let parentUrl = parent_url requestUrl;
                    pstat = StatPromise (rstatOrNull fs parentUrl st)
                in case throwIfNotFound pstat requestUrl method of
                     Inl e \<Rightarrow> (Inl e, st)
                   | Inr x \<Rightarrow>
                       (case load_for_dispatch rt fs noShapeTrees parentUrl st of
                          (Inl e, st') \<Rightarrow> (Inl e, st')
                        | (Inr postedContainer, st') \<Rightarrow> rest method postedContainer requestUrl st'))
             else nextFetch method requestUrl st)
      in case outcome of
           (Inl e, st') \<Rightarrow> (errorResponse class_status e, st')
         | (Inr resp, st') \<Rightarrow> (resp, st'))"

subsection \<open>JavaScript strings, \<^verbatim>\<open>escape\<close> and \<^verbatim>\<open>decodeURIComponent\<close>\<close>

text \<open>
  Header names, header values and bodies are JavaScript strings: sequences of
  UTF-16 code units, here natural numbers. (The strings of the sections above are
  texts of URLs and RDF terms, where only ASCII separators matter.)
\<close>

type_synonym jsstring = "nat list"

definition js :: "string \<Rightarrow> jsstring" where
  "js s = map of_char s"

definition hex_digit :: "nat \<Rightarrow> nat" where
  "hex_digit d = (if d < 10 then 48 + d else 55 + d)"

text \<open>
  \<^verbatim>\<open>escape\<close> keeps letters, digits and \<^verbatim>\<open>@*_+-./\<close>, writes any other code unit
  below 256 as \<^verbatim>\<open>%XX\<close> and the rest as \<^verbatim>\<open>%uXXXX\<close>, with upper-case digits.
\<close>

definition escape_keeps :: "nat \<Rightarrow> bool" where
  "escape_keeps c = ((65 \<le> c \<and> c \<le> 90) \<or> (97 \<le> c \<and> c \<le> 122) \<or> (48 \<le> c \<and> c \<le> 57)
     \<or> c \<in> set (js ''@*_+-./''))"

definition escape_unit :: "nat \<Rightarrow> jsstring" where
  "escape_unit c =
     (if escape_keeps c then [c]
      else if c < 256 then [37, hex_digit (c div 16), hex_digit (c mod 16)]
      else [37, 117, hex_digit (c div 4096 mod 16), hex_digit (c div 256 mod 16),
            hex_digit (c div 16 mod 16), hex_digit (c mod 16)])"

definition escape :: "jsstring \<Rightarrow> jsstring" where
  "escape s = concat (map escape_unit s)"

definition hex_value :: "nat \<Rightarrow> nat option" where
  "hex_value c =
     (if 48 \<le> c \<and> c \<le> 57 then Some (c - 48)
      else if 65 \<le> c \<and> c \<le> 70 then Some (c - 55)
      else if 97 \<le> c \<and> c \<le> 102 then Some (c - 87)
      else None)"

text \<open>The octet that \<^verbatim>\<open>%XY\<close> at the head of a string denotes, and the rest.\<close>

fun percent_octet :: "jsstring \<Rightarrow> (nat \<times> jsstring) option" where
  "percent_octet (p # x # y # rest) =
     (if p = 37 then
        (case (hex_value x, hex_value y) of
           (Some a, Some b) \<Rightarrow> Some (16 * a + b, rest)
         | _ \<Rightarrow> None)
      else None)"
| "percent_octet _ = None"

text \<open>
  The continuation octets of a UTF-8 sequence: \<open>k\<close> further \<^verbatim>\<open>%XY\<close>, each of the
  form \<^verbatim>\<open>10xxxxxx\<close>.
\<close>

fun continuation :: "nat \<Rightarrow> jsstring \<Rightarrow> (nat list \<times> jsstring) option" where
  "continuation 0 s = Some ([], s)"
| "continuation (Suc k) s =
     (case percent_octet s of
        None \<Rightarrow> None
      | Some (b, rest) \<Rightarrow>
          if b div 64 \<noteq> 2 then None
          else (case continuation k rest of
                  None \<Rightarrow> None
                | Some (bs, rest') \<Rightarrow> Some (b # bs, rest')))"

text \<open>
  The code point of a multi-octet UTF-8 sequence with lead octet \<open>b\<close>, if the
  sequence is well formed: not over-long, no surrogate, at most \<^verbatim>\<open>0x10FFFF\<close>.
\<close>

definition utf8_code_point :: "nat \<Rightarrow> nat list \<Rightarrow> nat option" where
  "utf8_code_point b bs =
     (let tail = (\<lambda>v c. 64 * v + c mod 64) in
      case bs of
        [c1] \<Rightarrow>
          (let v = fold (\<lambda>c v. tail v c) bs (b mod 32) in if 128 \<le> v then Some v else None)
      | [c1, c2] \<Rightarrow>
          (let v = fold (\<lambda>c v. tail v c) bs (b mod 16)
           in if 2048 \<le> v \<and> \<not> (55296 \<le> v \<and> v \<le> 57343) then Some v else None)
      | [c1, c2, c3] \<Rightarrow>
          (let v = fold (\<lambda>c v. tail v c) bs (b mod 8)
           in if 65536 \<le> v \<and> v \<le> 1114111 then Some v else None)
      | _ \<Rightarrow> None)"

definition utf16 :: "nat \<Rightarrow> jsstring" where
  "utf16 v = (if v < 65536 then [v]
              else [55296 + (v - 65536) div 1024, 56320 + (v - 65536) mod 1024])"

text \<open>The number of leading one bits of an octet from \<^verbatim>\<open>0x80\<close> on.\<close>

definition leading_ones :: "nat \<Rightarrow> nat" where
  "leading_ones b =
     (if b < 192 then 1 else if b < 224 then 2 else if b < 240 then 3 else if b < 248 then 4 else 5)"

text \<open>
  \<^verbatim>\<open>decodeURIComponent\<close>, the \<^verbatim>\<open>Decode\<close> operation of ECMAScript with no reserved
  set: every malformed escape throws a \<^verbatim>\<open>URIError\<close>.
\<close>

function decodeURIComponent :: "jsstring \<Rightarrow> error + jsstring" where
  "decodeURIComponent [] = Inr []"
| "decodeURIComponent (c # cs) =
     (if c \<noteq> 37 then
        (case decodeURIComponent cs of Inl e \<Rightarrow> Inl e | Inr r \<Rightarrow> Inr (c # r))
      else
        (case percent_octet (c # cs) of
           None \<Rightarrow> Inl (URIError ''URI malformed'')
         | Some (b, rest) \<Rightarrow>
             if b < 128 then
               (case decodeURIComponent (drop 2 cs) of Inl e \<Rightarrow> Inl e | Inr r \<Rightarrow> Inr (b # r))
             else if leading_ones b = 1 \<or> leading_ones b > 4 then Inl (URIError ''URI malformed'')
             else
               (case continuation (leading_ones b - 1) (drop 2 cs) of
                  None \<Rightarrow> Inl (URIError ''URI malformed'')
                | Some (bs, rest') \<Rightarrow>
                    (case utf8_code_point b bs of
                       None \<Rightarrow> Inl (URIError ''URI malformed'')
                     | Some v \<Rightarrow>
                         (case decodeURIComponent (drop (2 + 3 * (leading_ones b - 1)) cs) of
                            Inl e \<Rightarrow> Inl e
                          | Inr r \<Rightarrow> Inr (utf16 v @ r))))))"
  by pat_completeness auto
termination
  by (relation "measure length") auto

subsection \<open>Caching fetch\<close>

text \<open>
  A JavaScript \<^verbatim>\<open>Map\<close> keeps its entries in insertion order; \<^verbatim>\<open>set\<close> on a key
  that is present replaces the value where the entry stands.
\<close>

type_synonym headers = "(jsstring \<times> jsstring) list"

fun Map_set :: "('k \<times> 'v) list \<Rightarrow> 'k \<Rightarrow> 'v \<Rightarrow> ('k \<times> 'v) list" where
  "Map_set [] k v = [(k, v)]"
| "Map_set ((k', v') # m) k v = (if k' = k then (k, v) # m else (k', v') # Map_set m k v)"

text \<open>
  \<^verbatim>\<open>indexOf\<close> (\<open>None\<close> for \<^verbatim>\<open>-1\<close>) and \<^verbatim>\<open>substr(start, length)\<close>, whose
  length may be absent or negative.
\<close>

fun indexOf :: "'a list \<Rightarrow> 'a list \<Rightarrow> nat option" where
  "indexOf [] pat = (if pat = [] then Some 0 else None)"
| "indexOf (x # xs) pat =
     (if prefix pat (x # xs) then Some 0 else map_option Suc (indexOf xs pat))"

definition substr :: "'a list \<Rightarrow> int \<Rightarrow> int option \<Rightarrow> 'a list" where
  "substr s start len =
     (let n = int (length s);
          b = (if start < 0 then max (n + start) 0 else min start n);
          l = (case len of None \<Rightarrow> n - b | Some k \<Rightarrow> min (max k 0) (n - b))
      in take (nat l) (drop (nat b) s))"

text \<open>
  What a fetch resolves to: the header pairs that \<^verbatim>\<open>Array.from(resp.headers)\<close>
  lists and the text of the body.
\<close>

record http_response =
  r_ok :: bool
  r_headers :: headers
  r_text :: jsstring

text \<open>
  The caller gets the response of the network itself (when the cache is bypassed)
  or a \<^verbatim>\<open>FakeResponse (url, headers, text)\<close>.
\<close>

datatype fetch_result = Response http_response | FakeResponse url headers jsstring

text \<open>
  The world of \<^verbatim>\<open>cachingFetch\<close>: the resources of the storage by URL, and the
  log of the URLs fetched from the network. Of the storage it calls
  \<^verbatim>\<open>rstat\<close>, \<^verbatim>\<open>write\<close> and \<^verbatim>\<open>read\<close>: \<^verbatim>\<open>rstat\<close> succeeds for a resource that
  is there, \<^verbatim>\<open>write\<close> stores a body, \<^verbatim>\<open>read\<close> returns the stored body.
\<close>

record cache_world =
  files :: "(string \<times> jsstring) list"
  fetched :: "string list"

definition storage_rstat :: "cache_world \<Rightarrow> url \<Rightarrow> bool" where
  "storage_rstat w u = (map_of (files w) (href u) \<noteq> None)"

definition storage_write :: "cache_world \<Rightarrow> url \<Rightarrow> jsstring \<Rightarrow> cache_world" where
  "storage_write w u body = w\<lparr>files := Map_set (files w) (href u) body\<rparr>"

definition storage_read :: "cache_world \<Rightarrow> url \<Rightarrow> error + jsstring" where
  "storage_read w u =
     (case map_of (files w) (href u) of
        None \<Rightarrow> Inl (Error ''ENOENT: no such file or directory'')
      | Some body \<Rightarrow> Inr body)"

text \<open>
  \<^verbatim>\<open>cacheName\<close>: the source parses the \<^verbatim>\<open>href\<close> it is given again, which gives
  the same URL, empties the fragment and deletes every character of the new
  \<^verbatim>\<open>href\<close> outside \<^verbatim>\<open>[a-zA-Z0-9_-]\<close>.
\<close>

definition cache_keeps :: "char \<Rightarrow> bool" where
  "cache_keeps c =
     (let n = (of_char c :: nat)
      in (97 \<le> n \<and> n \<le> 122) \<or> (65 \<le> n \<and> n \<le> 90) \<or> (48 \<le> n \<and> n \<le> 57) \<or> n = 95 \<or> n = 45)"

definition cacheName :: "url \<Rightarrow> string" where
  "cacheName u = filter cache_keeps (href (u\<lparr>hash := []\<rparr>))"

text \<open>
  \<^verbatim>\<open>new URL(name, base)\<close> for a name of letters, digits, \<^verbatim>\<open>_\<close> and \<^verbatim>\<open>-\<close>, as
  \<^verbatim>\<open>cacheName\<close> gives: the name replaces the last segment of the base's path;
  query and fragment go. \<^verbatim>\<open>new URL('/', u).href\<close> is the origin with the root path.
\<close>

definition resolve_name :: "string \<Rightarrow> url \<Rightarrow> url" where
  "resolve_name name base =
     (if name = [] then base\<lparr>hash := []\<rparr>
      else base\<lparr>pathname := rev (dropWhile (\<lambda>c. c \<noteq> CHR ''/'') (rev (pathname base))) @ name,
                search := [], hash := []\<rparr>)"

definition origin_root :: "url \<Rightarrow> string" where
  "origin_root u = protocol u @ ''//'' @ host u @ ''/''"

text \<open>\<^verbatim>\<open>name.match(/date|time/)\<close>: one of the two words occurs in the name.\<close>

definition date_or_time :: "jsstring \<Rightarrow> bool" where
  "date_or_time name = (indexOf name (js ''date'') \<noteq> None \<or> indexOf name (js ''time'') \<noteq> None)"

text \<open>
  \<^verbatim>\<open>line.match(/^([^:]+): (.*)$/)\<close>: the key is the non-empty run before the first
  colon, a colon and a space follow, and the value runs to the end of the string
  with no line terminator in it. The match is the array of the whole line, the
  key and the value, or \<^verbatim>\<open>null\<close>.
\<close>

definition line_terminator :: "nat \<Rightarrow> bool" where
  "line_terminator c = (c = 10 \<or> c = 13 \<or> c = 8232 \<or> c = 8233)"

definition header_match :: "jsstring \<Rightarrow> jsstring list option" where
  "header_match line =
     (let key = takeWhile (\<lambda>c. c \<noteq> 58) line;
          rest = dropWhile (\<lambda>c. c \<noteq> 58) line
      in if key \<noteq> [] \<and> prefix [58, 32] rest \<and> \<not> list_ex line_terminator (drop 2 rest)
         then Some [line, key, drop 2 rest]
         else None)"

text \<open>\<^verbatim>\<open>Array.prototype.map\<close> with a function that may throw: the first throw ends it.\<close>

fun map_throwing :: "('a \<Rightarrow> error + 'b) \<Rightarrow> 'a list \<Rightarrow> error + 'b list" where
  "map_throwing f [] = Inr []"
| "map_throwing f (x # xs) =
     (case f x of
        Inl e \<Rightarrow> Inl e
      | Inr y \<Rightarrow> (case map_throwing f xs of Inl e \<Rightarrow> Inl e | Inr ys \<Rightarrow> Inr (y # ys)))"

text \<open>
  The \<^verbatim>\<open>reduce\<close> over the header lines of a cached image. A line that does not
  match gives \<^verbatim>\<open>null\<close>, and \<^verbatim>\<open>null.map\<close> throws a \<^verbatim>\<open>TypeError\<close>.
\<close>

fun read_headers :: "jsstring list \<Rightarrow> headers \<Rightarrow> error + headers" where
  "read_headers [] m = Inr m"
| "read_headers (line # lines) m =
     (case header_match line of
        None \<Rightarrow> Inl (TypeError ''Cannot read property map of null'')
      | Some groups \<Rightarrow>
          (case map_throwing decodeURIComponent groups of
             Inl e \<Rightarrow> Inl e
           | Inr decoded \<Rightarrow>
               (case tl decoded of
                  [key, val] \<Rightarrow> read_headers lines (Map_set m key val)
                | _ \<Rightarrow> Inl (TypeError ''undefined is not iterable''))))"

definition cache_image :: "headers \<Rightarrow> jsstring \<Rightarrow> jsstring" where
  "cache_image hs text =
     join [10] (map (\<lambda>pair. escape (fst pair) @ js '': '' @ escape (snd pair)) hs) @ [10, 10] @ text"

definition kept_headers :: "headers \<Rightarrow> headers" where
  "kept_headers hs =
     fold (\<lambda>pair m. Map_set m (fst pair) (snd pair)) (filter (\<lambda>pair. \<not> date_or_time (fst pair)) hs) []"

text \<open>
  \<^verbatim>\<open>cachingFetch (url)\<close>. \<open>Fetch\<close> is \<^verbatim>\<open>node-fetch\<close> and \<open>getOrThrow\<close> is
  \<^verbatim>\<open>Errors.getOrThrow (Fetch, url, options)\<close>, both by the \<^verbatim>\<open>href\<close> they are asked
  for; each call of either is a fetch from the network and is logged.
\<close>

definition cachingFetch ::
  "(string \<Rightarrow> error + http_response) \<Rightarrow> (string \<Rightarrow> error + http_response) \<Rightarrow> url \<Rightarrow> url \<Rightarrow>
   cache_world \<Rightarrow> (error + fetch_result) \<times> cache_world" where
  "cachingFetch Fetch getOrThrow cacheRoot u w =
     (let cacheUrl = resolve_name (cacheName u) cacheRoot
      in if origin_root cacheRoot = origin_root u then
           (map_sum id Response (Fetch (href u)), w\<lparr>fetched := fetched w @ [href u]\<rparr>)
         else if \<not> storage_rstat w cacheUrl then
           (case getOrThrow (href u) of
              Inl e \<Rightarrow> (Inl e, w\<lparr>fetched := fetched w @ [href u]\<rparr>)
            | Inr resp \<Rightarrow>
                (let text = r_text resp;
                     hs = kept_headers (r_headers resp);
                     blob = cache_image hs text
                 in (Inr (FakeResponse u hs text),
                     storage_write (w\<lparr>fetched := fetched w @ [href u]\<rparr>) cacheUrl blob)))
         else
           (case storage_read w cacheUrl of
              Inl e \<Rightarrow> (Inl e, w)
            | Inr blob \<Rightarrow>
                (let eoh = (case indexOf blob [10, 10] of None \<Rightarrow> - 1 | Some i \<Rightarrow> int i);
                     text = substr blob (eoh + 2) None
                 in case read_headers (split_at 10 (substr blob 0 (Some eoh))) [] of
                      Inl e \<Rightarrow> (Inl e, w)
                    | Inr hs \<Rightarrow> (Inr (FakeResponse u hs text), w))))"

text \<open>
  The selection as C5 words it, for comparison with \<^verbatim>\<open>getRdfRoot\<close>: among the
  declared children of the node, the one whose \<^verbatim>\<open>rdfs:label\<close> equals the segment
  or, if none declares a label, the one whose URI template the segment matches.
\<close>

definition has_label :: "store \<Rightarrow> string \<Rightarrow> rdf_term \<Rightarrow> bool" where
  "has_label g seg c = (getQuads g (Some c) (Some (NamedNode (ns_rdfs @ ''label''))) (Some (literal seg)) \<noteq> [])"

definition declares_label :: "store \<Rightarrow> rdf_term \<Rightarrow> bool" where
  "declares_label g c = (getQuads g (Some c) (Some (NamedNode (ns_rdfs @ ''label''))) None \<noteq> [])"

definition spec_select_child ::
  "(string option \<Rightarrow> string \<Rightarrow> bool) \<Rightarrow> store \<Rightarrow> rdf_term \<Rightarrow> string \<Rightarrow> rdf_term option" where
  "spec_select_child tmatch g node seg =
     (case filter (has_label g seg) (step_contents g node) of
        c # cs \<Rightarrow> Some c
      | [] \<Rightarrow>
          if list_ex (declares_label g) (step_contents g node) then None
          else find (\<lambda>c. tmatch (first_template g c) seg) (step_contents g node))"

text \<open>
  The selection that \<^verbatim>\<open>getRdfRoot\<close> makes, as a relation: \<open>c\<close> is the first of the
  node's declared children, in store order, that has the segment as its label or
  has exactly one URI template. The walk follows one selection for each segment
  other than \<^verbatim>\<open>.\<close>.
\<close>

definition selects :: "store \<Rightarrow> rdf_term \<Rightarrow> string \<Rightarrow> rdf_term \<Rightarrow> bool" where
  "selects g node seg c =
     (let cqz = getQuads g (Some node) (Some (tree_pred ''contents'')) None
      in \<exists>i < length cqz. object (cqz ! i) = c \<and> label_or_template g seg (cqz ! i)
            \<and> (\<forall>j < i. \<not> label_or_template g seg (cqz ! j)))"

fun walks :: "store \<Rightarrow> rdf_term \<Rightarrow> string list \<Rightarrow> rdf_term \<Rightarrow> bool" where
  "walks g n [] m = (m = n)"
| "walks g n (seg # segs) m =
     (if seg = ''.'' then walks g n segs m
      else \<exists>c \<in> set (step_contents g n). selects g n seg c \<and> walks g c segs m)"

subsection \<open>Example data\<close>

definition apps_url :: url where
  "apps_url = \<lparr>protocol = ''http:'', host = ''pod.example'', pathname = ''/Apps/'', search = [], hash = []\<rparr>"

definition no_slash_url :: url where
  "no_slash_url = \<lparr>protocol = ''http:'', host = ''pod.example'', pathname = ''/Apps'', search = [], hash = []\<rparr>"

definition two_slash_url :: url where
  "two_slash_url = \<lparr>protocol = ''http:'', host = ''pod.example'', pathname = ''/Apps//'', search = [], hash = []\<rparr>"

definition empty_container :: container where
  "empty_container =
     \<lparr>c_class = PlainContainer, c_url = apps_url, c_prefixes = [], c_graph = [], c_subdirs = [],
      c_newDir = None, shapeTreeUrl = Undefined, shapeTreeInstancePath = Undefined,
      shapeTreeInstanceRoot = Undefined\<rparr>"

definition listing_container :: container where
  "listing_container = empty_container\<lparr>c_graph := [contains_quad apps_url ''http://pod.example/Apps/proj1/'']\<rparr>"

text \<open>A storage on which every operation fails, over a state that holds nothing.\<close>

definition failing_storage :: "unit storage" where
  "failing_storage =
     \<lparr>ensureContainer = (\<lambda>u p t st. (Inl (Error ''EACCES''), st)),
      readContainer = (\<lambda>u p st. (Inl (Error ''EACCES''), st)),
      writeContainer = (\<lambda>g u p st. (Inl (Error ''EACCES''), st)),
      removeContainer = (\<lambda>u st. (Inl (Error ''EACCES''), st)),
      rstat = (\<lambda>u st. Inl (Error ''ENOENT''))\<rparr>"

text \<open>
  A schema whose root has a templated child listed before a labelled one, and a
  matcher that accepts a slug exactly when it is the template's text.
\<close>

definition tree_url :: url where
  "tree_url = \<lparr>protocol = ''http:'', host = ''st.example'', pathname = ''/gh'', search = [], hash = ''#root''\<rparr>"

definition n_root :: rdf_term where "n_root = NamedNode ''http://st.example/gh#root''"
definition n_user :: rdf_term where "n_user = NamedNode ''http://st.example/gh#user''"
definition n_repos :: rdf_term where "n_repos = NamedNode ''http://st.example/gh#repos''"
definition n_org :: rdf_term where "n_org = NamedNode ''http://st.example/gh#org''"

definition gh_graph :: store where
  "gh_graph =
     [mk_quad n_root (tree_pred ''contents'') n_user,
      mk_quad n_root (tree_pred ''contents'') n_repos,
      mk_quad n_user (tree_pred ''uriTemplate'') (literal ''{userName}''),
      mk_quad n_user (tree_pred ''expectedType'') (NamedNode (ns_ldp @ ''Container'')),
      mk_quad n_user (tree_pred ''shape'') (NamedNode ''http://st.example/gh.shex#PersonShape''),
      mk_quad n_repos (NamedNode (ns_rdfs @ ''label'')) (literal ''repos''),
      mk_quad n_repos (tree_pred ''expectedType'') (NamedNode (ns_ldp @ ''Container'')),
      mk_quad n_repos (tree_pred ''contents'') n_org,
      mk_quad n_org (tree_pred ''uriTemplate'') (literal ''{orgName}''),
      mk_quad n_org (tree_pred ''expectedType'') (NamedNode (ns_ldp @ ''Container''))]"

definition literal_match :: "string option \<Rightarrow> string \<Rightarrow> bool" where
  "literal_match t s = (t = Some s)"

text \<open>
  A cache under \<^verbatim>\<open>http://pod.example/Cache/\<close> and a network of four resources on
  another origin: two whose URLs differ in the place of a \<^verbatim>\<open>/\<close> only, one whose
  \<^verbatim>\<open>server\<close> header holds the Latin-1 letter \<^verbatim>\<open>0xE9\<close>, and one that sends a
  \<^verbatim>\<open>date\<close> header and no other.
\<close>

definition cache_root :: url where
  "cache_root = \<lparr>protocol = ''http:'', host = ''pod.example'', pathname = ''/Cache/'', search = [], hash = []\<rparr>"

definition url_a_bc :: url where
  "url_a_bc = \<lparr>protocol = ''http:'', host = ''st.example'', pathname = ''/a/bc'', search = [], hash = []\<rparr>"

definition url_ab_c :: url where
  "url_ab_c = \<lparr>protocol = ''http:'', host = ''st.example'', pathname = ''/ab/c'', search = [], hash = []\<rparr>"

definition url_latin :: url where
  "url_latin = \<lparr>protocol = ''http:'', host = ''st.example'', pathname = ''/latin'', search = [], hash = []\<rparr>"

definition url_bare :: url where
  "url_bare = \<lparr>protocol = ''http:'', host = ''st.example'', pathname = ''/bare'', search = [], hash = []\<rparr>"

definition network :: "string \<Rightarrow> error + http_response" where
  "network h =
     (if h = ''http://st.example/a/bc'' then
        Inr \<lparr>r_ok = True,
             r_headers = [(js ''content-type'', js ''text/turtle''), (js ''date'', js ''Tue, 03 Nov 2026'')],
             r_text = js ''one''\<rparr>
      else if h = ''http://st.example/ab/c'' then
        Inr \<lparr>r_ok = True, r_headers = [(js ''content-type'', js ''text/plain'')], r_text = js ''two''\<rparr>
      else if h = ''http://st.example/latin'' then
        Inr \<lparr>r_ok = True, r_headers = [(js ''server'', [99, 97, 102, 233])], r_text = js ''x''\<rparr>
      else if h = ''http://st.example/bare'' then
        Inr \<lparr>r_ok = True, r_headers = [(js ''date'', js ''Tue'')], r_text = js ''x''\<rparr>
      else Inl (Error ''ENOTFOUND''))"

definition empty_world :: cache_world where
  "empty_world = \<lparr>files = [], fetched = []\<rparr>"

definition abc_cached :: cache_world where
  "abc_cached =
     \<lparr>files = [(''http://pod.example/Cache/httpstexampleabc'', js ''content-type: text/turtle'' @ [10, 10] @ js ''one'')],
      fetched = [''http://st.example/a/bc'']\<rparr>"

definition latin_cached :: cache_world where
  "latin_cached =
     \<lparr>files = [(''http://pod.example/Cache/httpstexamplelatin'', js ''server: caf%E9'' @ [10, 10] @ js ''x'')],
      fetched = [''http://st.example/latin'']\<rparr>"

definition bare_cached :: cache_world where
  "bare_cached =
     \<lparr>files = [(''http://pod.example/Cache/httpstexamplebare'', [10, 10] @ js ''x'')],
      fetched = [''http://st.example/bare'']\<rparr>"

text \<open>
  A storage that keeps the graph of each container under its \<^verbatim>\<open>href\<close>. It makes
  a container where \<open>may_create\<close> allows, and removes one, with all below it,
  where \<open>may_remove\<close> allows; otherwise the operation throws.
\<close>

definition title_graph :: "url \<Rightarrow> string \<Rightarrow> store" where
  "title_graph u t =
     [mk_quad (NamedNode (href u)) (NamedNode ''http://www.w3.org/1999/02/22-rdf-syntax-ns#type'')
        (NamedNode (ns_ldp @ ''BasicContainer'')),
      mk_quad (NamedNode (href u)) (NamedNode ''http://purl.org/dc/terms/title'') (literal t)]"

definition dir_storage :: "(string \<Rightarrow> bool) \<Rightarrow> (string \<Rightarrow> bool) \<Rightarrow> ((string \<times> store) list) storage" where
  "dir_storage may_create may_remove =
     \<lparr>ensureContainer = (\<lambda>u p t st.
        case map_of st (href u) of
          Some g \<Rightarrow> (Inr (False, g, p), st)
        | None \<Rightarrow>
            if may_create (href u) then (Inr (True, title_graph u t, p), st @ [(href u, title_graph u t)])
            else (Inl (Error ''EACCES: permission denied, mkdir''), st)),
      readContainer = (\<lambda>u p st.
        case map_of st (href u) of
          Some g \<Rightarrow> (Inr (g, p), st)
        | None \<Rightarrow> (Inl (Error ''ENOENT: no such file or directory''), st)),
      writeContainer = (\<lambda>g u p st.
        case map_of st (href u) of
          Some old \<Rightarrow> (Inr (), Map_set st (href u) g)
        | None \<Rightarrow> (Inl (Error ''ENOENT: no such file or directory''), st)),
      removeContainer = (\<lambda>u st.
        if may_remove (href u) then (Inr (), filter (\<lambda>entry. \<not> prefix (href u) (fst entry)) st)
        else (Inl (Error ''EACCES: permission denied, rmdir''), st)),
      rstat = (\<lambda>u st.
        case map_of st (href u) of
          Some g \<Rightarrow> Inr True
        | None \<Rightarrow> Inl (Error ''ENOENT: no such file or directory''))\<rparr>"

text \<open>
  A runtime for relative references and paths made of plain segments, \<^verbatim>\<open>.\<close> and
  \<^verbatim>\<open>..\<close>, and a parser that reads the three statements of the binding text that
  \<^verbatim>\<open>containerText\<close> writes.
\<close>

fun dot_segments :: "string list \<Rightarrow> string list \<Rightarrow> string list" where
  "dot_segments [] acc = rev acc"
| "dot_segments (seg # segs) acc =
     (if seg = ''.'' then dot_segments segs acc
      else if seg = ''..'' then dot_segments segs (tl acc)
      else dot_segments segs (seg # acc))"

definition plain_resolve :: "string \<Rightarrow> url \<Rightarrow> url option" where
  "plain_resolve rel base =
     (if rel = [] then Some (base\<lparr>hash := []\<rparr>)
      else
        (let dir = butlast (split_at CHR ''/'' (pathname base));
             segs = split_at CHR ''/'' rel;
             last_dot = (last segs = ''.'' \<or> last segs = ''..'');
             out = dot_segments (tl dir @ segs) []
         in Some (base\<lparr>pathname := ''/'' @ join ''/'' out @ (if last_dot \<and> out \<noteq> [] then ''/'' else []),
                       search := [], hash := []\<rparr>)))"

definition plain_join :: "string \<Rightarrow> string \<Rightarrow> string" where
  "plain_join a b =
     (let out = dot_segments (filter (\<lambda>seg. seg \<noteq> []) (split_at CHR ''/'' (a @ ''/'' @ b))) []
      in if out = [] then ''.'' else join ''/'' out @ (if endsWith b ''/'' then ''/'' else []))"

definition plain_relative :: "string \<Rightarrow> string \<Rightarrow> string" where
  "plain_relative from to =
     join ''/'' (map (\<lambda>seg. ''..'')
       (dot_segments (filter (\<lambda>seg. seg \<noteq> []) (split_at CHR ''/'' from)) []))"

definition plain_parse :: "string \<Rightarrow> url option" where
  "plain_parse s =
     (case indexOf s ''://'' of
        None \<Rightarrow> None
      | Some i \<Rightarrow>
          (let rest = drop (i + 3) s;
               h = takeWhile (\<lambda>c. c \<noteq> CHR ''/'') rest;
               p = dropWhile (\<lambda>c. c \<noteq> CHR ''/'') rest
           in Some \<lparr>protocol = take (i + 1) s, host = h,
                     pathname = (if p = [] then ''/'' else takeWhile (\<lambda>c. c \<noteq> CHR ''#'') p),
                     search = [], hash = dropWhile (\<lambda>c. c \<noteq> CHR ''#'') p\<rparr>))"

definition between :: "string \<Rightarrow> string \<Rightarrow> string \<Rightarrow> string option" where
  "between start stop s =
     (case indexOf s start of
        None \<Rightarrow> None
      | Some i \<Rightarrow>
          (case indexOf (drop (i + length start) s) stop of
             None \<Rightarrow> None
           | Some j \<Rightarrow> Some (take j (drop (i + length start) s))))"

definition binding_parser :: "string \<Rightarrow> url \<Rightarrow> prefixes \<Rightarrow> error + store \<times> prefixes" where
  "binding_parser text base p =
     (case (between ''tree:shapeTreeRoot <'' ''>'' text,
            between (''tree:shapeTreeInstancePath '' @ [CHR 0x22]) [CHR 0x22] text,
            between ''tree:shapeTreeInstanceRoot <'' ''>'' text) of
        (Some tree, Some path, Some root) \<Rightarrow>
          (case plain_resolve root base of
             None \<Rightarrow> Inl (Error ''parse error'')
           | Some r \<Rightarrow>
               Inr ([mk_quad (NamedNode (href base)) (tree_pred ''shapeTreeRoot'') (NamedNode tree),
                     mk_quad (NamedNode (href base)) (tree_pred ''shapeTreeInstancePath'') (literal path),
                     mk_quad (NamedNode (href base)) (tree_pred ''shapeTreeInstanceRoot'') (NamedNode (href r))],
                    p))
      | _ \<Rightarrow> Inl (Error ''parse error''))"

definition plain_runtime :: runtime where
  "plain_runtime =
     \<lparr>URL_parse = plain_parse, URL_resolve = plain_resolve, Path_relative = plain_relative,
      Path_join = plain_join, parseTurtle = binding_parser\<rparr>"

definition proj1_url :: url where
  "proj1_url = \<lparr>protocol = ''http:'', host = ''pod.example'', pathname = ''/Apps/proj1/'', search = [], hash = []\<rparr>"

definition apps_store :: "(string \<times> store) list" where
  "apps_store = [(''http://pod.example/Apps/'', [])]"





definition open_storage :: "((string \<times> store) list) storage" where
  "open_storage = dir_storage (\<lambda>h. True) (\<lambda>h. True)"

text \<open>
  Requests to a pod that holds \<^verbatim>\<open>/Apps/\<close> only: the resource \<^verbatim>\<open>/Missing/notes\<close> and
  its container \<^verbatim>\<open>/Missing/\<close> are not there. The wrapped fetch and the rest of a
  verb answer 201, and the recognised errors of the schema have status 422.
\<close>

definition missing_url :: url where
  "missing_url = \<lparr>protocol = ''http:'', host = ''pod.example'', pathname = ''/Missing/'', search = [], hash = []\<rparr>"

definition missing_notes_url :: url where
  "missing_notes_url = \<lparr>protocol = ''http:'', host = ''pod.example'', pathname = ''/Missing/notes'', search = [], hash = []\<rparr>"

definition created :: fetch_response where
  "created = \<lparr>resp_status = 201, resp_error = None\<rparr>"

definition forward :: "string \<Rightarrow> url \<Rightarrow> (string \<times> store) list \<Rightarrow> (error + fetch_response) \<times> (string \<times> store) list" where
  "forward method u st = (Inr created, st)"

definition carry_on ::
  "string \<Rightarrow> container \<Rightarrow> url \<Rightarrow> (string \<times> store) list \<Rightarrow> (error + fetch_response) \<times> (string \<times> store) list" where
  "carry_on method c u st = (Inr created, st)"

section \<open>Properties\<close>

subsection \<open>Stores\<close>

lemma removeQuad_addQuad_fresh: "q \<notin> set g \<Longrightarrow> removeQuad (addQuad g q) q = g"
  by (auto simp: removeQuad_def addQuad_def filter_id_conv)




subsection \<open>Membership round trip\<close>

text \<open>
  C3, as stated, at a container that already lists the member: \<^verbatim>\<open>addMember\<close>
  finds the containment triple in the store and adds nothing, \<^verbatim>\<open>removeMember\<close>
  then deletes the triple that was there before.
\<close>

theorem addMember_removeMember_counterexample:
  "set (c_graph (removeMember (addMember listing_container ''http://pod.example/Apps/proj1/'')
                   ''http://pod.example/Apps/proj1/''))
   \<noteq> set (c_graph listing_container)"
  by (simp add: removeMember_def addMember_def removeQuad_def addQuad_def
      listing_container_def empty_container_def)

text \<open>
  C3, amended: for a container whose statement-set does not hold the containment
  triple of member \<open>m\<close> yet, \<^verbatim>\<open>addMember(m)\<close> followed by \<^verbatim>\<open>removeMember(m)\<close>
  gives the container back as it was, statement-set included.
\<close>

theorem addMember_removeMember_fresh:
  "contains_quad (c_url c) m \<notin> set (c_graph c) \<Longrightarrow> removeMember (addMember c m) m = c"
  by (simp add: removeMember_def addMember_def removeQuad_addQuad_fresh)

theorem addMember_removeMember_fresh_witness:
  "contains_quad (c_url empty_container) ''http://pod.example/Apps/proj1/'' \<notin> set (c_graph empty_container)
   \<and> removeMember (addMember empty_container ''http://pod.example/Apps/proj1/'')
         ''http://pod.example/Apps/proj1/'' = empty_container"
proof -
  have fresh: "contains_quad (c_url empty_container) ''http://pod.example/Apps/proj1/'' \<notin> set (c_graph empty_container)"
    by (simp add: empty_container_def)
  from fresh addMember_removeMember_fresh [OF fresh] show ?thesis by simp
qed

subsection \<open>Identifiers of containers\<close>

lemma trailing_separators_one:
  "trailing_separators p = 1 \<longleftrightarrow> endsWith p ''/'' \<and> \<not> endsWith p ''//''"
proof (cases "rev p")
  case Nil
  then show ?thesis
    by (simp add: trailing_separators_def endsWith_def suffix_def)
next
  case (Cons a r)
  then have p: "p = rev r @ [a]" by (metis rev.simps(2) rev_rev_ident)
  show ?thesis
  proof (cases r)
    case Nil
    with p Cons show ?thesis
      by (auto simp: trailing_separators_def endsWith_def suffix_def)
  next
    case (Cons b r')
    with p have p': "p = rev r' @ [b, a]" by simp
    have "suffix ''//'' p \<longleftrightarrow> b = CHR ''/'' \<and> a = CHR ''/''"
      unfolding p' suffix_def by auto
    moreover have "suffix ''/'' p \<longleftrightarrow> a = CHR ''/''"
      unfolding p' suffix_def by auto
    moreover have "trailing_separators p = 1 \<longleftrightarrow> a = CHR ''/'' \<and> b \<noteq> CHR ''/''"
      unfolding p' trailing_separators_def by simp
    ultimately show ?thesis
      by (auto simp: endsWith_def)
  qed
qed

lemma Container_new_Inr_iff:
  "(\<exists>c. Container_new u t = Inr c) \<longleftrightarrow>
   (\<exists>x. u = UrlObject x \<and> endsWith (pathname x) ''/'' \<and> \<not> endsWith (pathname x) ''//'')"
  by (cases u) (auto simp: Container_new_def)

text \<open>
  C9: opening a container succeeds only for a \<^verbatim>\<open>URL\<close> object whose path ends in
  exactly one separator. For any other argument, in particular a path that ends in
  no separator or in two, opening throws a plain \<^verbatim>\<open>Error\<close> about the identifier,
  no container is returned and the storage is not touched.
\<close>

theorem Container_identifier_format:
  "((\<exists>c st'. Container_ready fs u t st = (Inr c, st')) \<longrightarrow>
      (\<exists>x. u = UrlObject x \<and> trailing_separators (pathname x) = 1))
   \<and> ((\<forall>x. u = UrlObject x \<longrightarrow> trailing_separators (pathname x) \<noteq> 1) \<longrightarrow>
      (\<exists>msg. Container_new u t = Inl (Error msg) \<and> Container_ready fs u t st = (Inl (Error msg), st)))"
proof (intro conjI impI)
  assume "\<exists>c st'. Container_ready fs u t st = (Inr c, st')"
  then have "\<exists>c. Container_new u t = Inr c"
    by (auto simp: Container_ready_def split: sum.splits)
  then obtain x where "u = UrlObject x" "endsWith (pathname x) ''/'' \<and> \<not> endsWith (pathname x) ''//''"
    unfolding Container_new_Inr_iff by blast
  then show "\<exists>x. u = UrlObject x \<and> trailing_separators (pathname x) = 1"
    using trailing_separators_one by blast
next
  assume bad: "\<forall>x. u = UrlObject x \<longrightarrow> trailing_separators (pathname x) \<noteq> 1"
  have "\<exists>msg. Container_new u t = Inl (Error msg)"
  proof (cases u)
    case (NotUrl s)
    then show ?thesis by (simp add: Container_new_def)
  next
    case (UrlObject x)
    with bad have "trailing_separators (pathname x) \<noteq> 1" by blast
    then have "\<not> (endsWith (pathname x) ''/'' \<and> \<not> endsWith (pathname x) ''//'')"
      using trailing_separators_one by blast
    with UrlObject show ?thesis by (auto simp: Container_new_def)
  qed
  then show "\<exists>msg. Container_new u t = Inl (Error msg) \<and> Container_ready fs u t st = (Inl (Error msg), st)"
    by (auto simp: Container_ready_def)
qed

theorem Container_identifier_format_witness:
  "(\<exists>c st'. Container_ready failing_storage (UrlObject apps_url) (Loaded [] []) () = (Inr c, st'))
   \<and> (\<exists>x. UrlObject apps_url = UrlObject x \<and> trailing_separators (pathname x) = 1)
   \<and> trailing_separators (pathname no_slash_url) = 0
   \<and> (\<exists>msg. Container_new (UrlObject no_slash_url) (Title ''t'') = Inl (Error msg)
          \<and> Container_ready failing_storage (UrlObject no_slash_url) (Title ''t'') () = (Inl (Error msg), ()))
   \<and> trailing_separators (pathname two_slash_url) = 2
   \<and> (\<exists>msg. Container_new (UrlObject two_slash_url) (Title ''t'') = Inl (Error msg)
          \<and> Container_ready failing_storage (UrlObject two_slash_url) (Title ''t'') () = (Inl (Error msg), ()))"
proof -
  have ok: "\<exists>c st'. Container_ready failing_storage (UrlObject apps_url) (Loaded [] []) () = (Inr c, st')"
    by (simp add: Container_ready_def Container_new_def apps_url_def endsWith_def suffix_def)
  have zero: "trailing_separators (pathname no_slash_url) = 0"
    by (simp add: trailing_separators_def no_slash_url_def)
  have two: "trailing_separators (pathname two_slash_url) = 2"
    by (simp add: trailing_separators_def two_slash_url_def)
  note t1 = Container_identifier_format [of failing_storage "UrlObject apps_url" "Loaded [] []" "()"]
  note t2 = Container_identifier_format [of failing_storage "UrlObject no_slash_url" "Title ''t''" "()"]
  note t3 = Container_identifier_format [of failing_storage "UrlObject two_slash_url" "Title ''t''" "()"]
  from t1 ok have "\<exists>x. UrlObject apps_url = UrlObject x \<and> trailing_separators (pathname x) = 1"
    by blast
  moreover from t2 zero
  have "\<exists>msg. Container_new (UrlObject no_slash_url) (Title ''t'') = Inl (Error msg)
          \<and> Container_ready failing_storage (UrlObject no_slash_url) (Title ''t'') () = (Inl (Error msg), ())"
    by simp
  moreover from t3 two
  have "\<exists>msg. Container_new (UrlObject two_slash_url) (Title ''t'') = Inl (Error msg)
          \<and> Container_ready failing_storage (UrlObject two_slash_url) (Title ''t'') () = (Inl (Error msg), ())"
    by simp
  ultimately show ?thesis using ok zero two by blast
qed

subsection \<open>Matching a step\<close>






lemmas gh_defs = gh_graph_def n_root_def n_user_def n_repos_def n_org_def tree_pred_def mk_quad_def
  literal_def ns_tree_def ns_ldp_def ns_rdfs_def getQuads_def matches_def step_contents_def
  first_template_def literal_match_def




subsection \<open>Resolving the root node\<close>

lemma find_first_index:
  "(\<exists>q. find P xs = Some q \<and> f q = c) \<longleftrightarrow>
   (\<exists>i<length xs. f (xs ! i) = c \<and> P (xs ! i) \<and> (\<forall>j<i. \<not> P (xs ! j)))"
  unfolding find_Some_iff by blast

lemma getRdfRoot_step_Inr:
  "getRdfRoot_step g n seg = Inr c \<longleftrightarrow> (if seg = ''.'' then c = n else selects g n seg c)"
proof (cases "seg = ''.''")
  case True
  then show ?thesis by (auto simp: getRdfRoot_step_def)
next
  case False
  let ?cqz = "getQuads g (Some n) (Some (tree_pred ''contents'')) None"
  have "getRdfRoot_step g n seg = Inr c \<longleftrightarrow> (\<exists>q. find (label_or_template g seg) ?cqz = Some q \<and> object q = c)"
    using False by (auto simp: getRdfRoot_step_def Let_def split: option.splits)
  also have "\<dots> \<longleftrightarrow> selects g n seg c"
    unfolding selects_def Let_def by (rule find_first_index)
  finally show ?thesis using False by simp
qed

lemma selects_child: "selects g n seg c \<Longrightarrow> c \<in> set (step_contents g n)"
  by (auto simp: selects_def step_contents_def Let_def)

lemma getRdfRoot_reduce_walks: "getRdfRoot_reduce g segs n = Inr m \<longleftrightarrow> walks g n segs m"
proof (induction segs arbitrary: n)
  case Nil
  show ?case by auto
next
  case (Cons seg segs)
  show ?case
  proof (cases "seg = ''.''")
    case True
    then have "getRdfRoot_step g n seg = Inr n"
      by (simp add: getRdfRoot_step_def)
    with True Cons.IH [of n] show ?thesis by simp
  next
    case False
    have "getRdfRoot_reduce g (seg # segs) n = Inr m \<longleftrightarrow>
          (\<exists>c\<in>set (step_contents g n). selects g n seg c \<and> walks g c segs m)"
    proof
      assume run: "getRdfRoot_reduce g (seg # segs) n = Inr m"
      then obtain c where step: "getRdfRoot_step g n seg = Inr c"
        and rest: "getRdfRoot_reduce g segs c = Inr m"
        by (cases "getRdfRoot_step g n seg") simp_all
      from step False have sel: "selects g n seg c"
        by (simp add: getRdfRoot_step_Inr)
      moreover from rest have "walks g c segs m"
        by (simp add: Cons.IH)
      moreover from sel have "c \<in> set (step_contents g n)"
        by (rule selects_child)
      ultimately show "\<exists>c\<in>set (step_contents g n). selects g n seg c \<and> walks g c segs m"
        by blast
    next
      assume "\<exists>c\<in>set (step_contents g n). selects g n seg c \<and> walks g c segs m"
      then obtain c where sel: "selects g n seg c" and w: "walks g c segs m"
        by blast
      from sel False have "getRdfRoot_step g n seg = Inr c"
        by (simp add: getRdfRoot_step_Inr)
      moreover from w have "getRdfRoot_reduce g segs c = Inr m"
        by (simp add: Cons.IH)
      ultimately show "getRdfRoot_reduce g (seg # segs) n = Inr m"
        by simp
    qed
    with False show ?thesis by simp
  qed
qed

text \<open>
  C5, as stated, at the schema whose root lists a templated child before the child
  labelled \<^verbatim>\<open>repos\<close>, with the cursor \<^verbatim>\<open>repos\<close>: the claim selects the labelled
  child, \<^verbatim>\<open>getRdfRoot\<close> returns the templated one, which \<^verbatim>\<open>find\<close> meets first and
  whose template is never matched against the segment.
\<close>

theorem getRdfRoot_counterexample:
  "getRdfRoot \<lparr>rst_url = tree_url, rst_path = ''repos'', rst_graph = gh_graph\<rparr> = Inr n_user
   \<and> spec_select_child literal_match gh_graph n_root ''repos'' = Some n_repos
   \<and> n_user \<noteq> n_repos
   \<and> \<not> literal_match (first_template gh_graph n_user) ''repos''"
  by (simp add: getRdfRoot_def getRdfRoot_step_def label_or_template_def spec_select_child_def
      has_label_def declares_label_def tree_url_def href_def gh_defs)

text \<open>
  C5, amended: \<^verbatim>\<open>getRdfRoot()\<close> walks the \<^verbatim>\<open>/\<close>-separated segments of the cursor
  path from the schema's root node; a \<^verbatim>\<open>.\<close> segment keeps the node, and any other
  segment moves to the first declared child, in store order, that has the segment
  as its \<^verbatim>\<open>rdfs:label\<close> or has exactly one URI template (the segment is not matched
  against the template). It returns a node exactly when such a walk exists.
\<close>

theorem getRdfRoot_walks:
  "getRdfRoot t = Inr m \<longleftrightarrow>
     walks (rst_graph t) (NamedNode (href (rst_url t))) (split_at CHR ''/'' (rst_path t)) m"
  by (simp add: getRdfRoot_def getRdfRoot_reduce_walks)

theorem getRdfRoot_walks_witness:
  "getRdfRoot \<lparr>rst_url = tree_url, rst_path = ''./repos'', rst_graph = gh_graph\<rparr> = Inr n_user
   \<and> walks gh_graph (NamedNode (href tree_url)) [''.'', ''repos''] n_user"
proof -
  have run: "getRdfRoot \<lparr>rst_url = tree_url, rst_path = ''./repos'', rst_graph = gh_graph\<rparr> = Inr n_user"
    by (simp add: getRdfRoot_def getRdfRoot_step_def label_or_template_def tree_url_def href_def gh_defs)
  have "split_at CHR ''/'' ''./repos'' = [''.'', ''repos'']" by simp
  with run getRdfRoot_walks [of "\<lparr>rst_url = tree_url, rst_path = ''./repos'', rst_graph = gh_graph\<rparr>" n_user]
  show ?thesis by simp
qed

subsection \<open>Caching fetch\<close>

lemma latin_miss:
  "cachingFetch network network cache_root url_latin empty_world =
     (Inr (FakeResponse url_latin [(js ''server'', [99, 97, 102, 233])] (js ''x'')), latin_cached)"
  by code_simp

lemma latin_hit:
  "cachingFetch network network cache_root url_latin latin_cached = (Inl (URIError ''URI malformed''), latin_cached)"
  by code_simp

lemma bare_miss:
  "cachingFetch network network cache_root url_bare empty_world = (Inr (FakeResponse url_bare [] (js ''x'')), bare_cached)"
  by code_simp

lemma bare_hit:
  "cachingFetch network network cache_root url_bare bare_cached =
     (Inl (TypeError ''Cannot read property map of null''), bare_cached)"
  by code_simp

text \<open>
  C4 at two responses. A header value with the Latin-1 letter \<^verbatim>\<open>0xE9\<close> is written
  to the cache by \<^verbatim>\<open>escape\<close> as \<^verbatim>\<open>%E9\<close>, which \<^verbatim>\<open>decodeURIComponent\<close> rejects:
  the first call returns the response, the second throws a \<^verbatim>\<open>URIError\<close>. A
  response whose only header is \<^verbatim>\<open>date\<close> is cached with an empty header block,
  whose single empty line does not match: the second call throws a
  \<^verbatim>\<open>TypeError\<close>. Neither second call fetches from the network.
\<close>

theorem cachingFetch_second_call_throws:
  "cachingFetch network network cache_root url_latin empty_world =
     (Inr (FakeResponse url_latin [(js ''server'', [99, 97, 102, 233])] (js ''x'')), latin_cached)
   \<and> cachingFetch network network cache_root url_latin latin_cached =
     (Inl (URIError ''URI malformed''), latin_cached)
   \<and> cachingFetch network network cache_root url_bare empty_world =
     (Inr (FakeResponse url_bare [] (js ''x'')), bare_cached)
   \<and> cachingFetch network network cache_root url_bare bare_cached =
     (Inl (TypeError ''Cannot read property map of null''), bare_cached)"
  using latin_miss latin_hit bare_miss bare_hit by simp

lemma abc_key: "cacheName url_a_bc = cacheName url_ab_c"
  by code_simp

lemma abc_miss:
  "cachingFetch network network cache_root url_a_bc empty_world =
     (Inr (FakeResponse url_a_bc [(js ''content-type'', js ''text/turtle'')] (js ''one'')), abc_cached)"
  by code_simp

lemma abc_hit:
  "cachingFetch network network cache_root url_ab_c abc_cached =
     (Inr (FakeResponse url_ab_c [(js ''content-type'', js ''text/turtle'')] (js ''one'')), abc_cached)"
  by code_simp

text \<open>
  C10: the URLs \<^verbatim>\<open>http://st.example/a/bc\<close> and \<^verbatim>\<open>http://st.example/ab/c\<close> differ
  and have the same cache key. After \<^verbatim>\<open>cachingFetch\<close> of the first has filled the
  cache, \<^verbatim>\<open>cachingFetch\<close> of the second returns the headers and the body cached
  for the first, not what the network holds for the second, and leaves the world,
  the log of network fetches included, as it was.
\<close>

theorem cacheName_collision:
  "url_a_bc \<noteq> url_ab_c
   \<and> cacheName url_a_bc = cacheName url_ab_c
   \<and> cachingFetch network network cache_root url_a_bc empty_world =
       (Inr (FakeResponse url_a_bc [(js ''content-type'', js ''text/turtle'')] (js ''one'')), abc_cached)
   \<and> cachingFetch network network cache_root url_ab_c abc_cached =
       (Inr (FakeResponse url_ab_c [(js ''content-type'', js ''text/turtle'')] (js ''one'')), abc_cached)
   \<and> network (href url_ab_c) =
       Inr \<lparr>r_ok = True, r_headers = [(js ''content-type'', js ''text/plain'')], r_text = js ''two''\<rparr>
   \<and> fetched abc_cached = [href url_a_bc]"
proof -
  have "url_a_bc \<noteq> url_ab_c"
    by (simp add: url_a_bc_def url_ab_c_def)
  moreover have "network (href url_ab_c) =
       Inr \<lparr>r_ok = True, r_headers = [(js ''content-type'', js ''text/plain'')], r_text = js ''two''\<rparr>"
    by (simp add: network_def href_def url_ab_c_def)
  moreover have "fetched abc_cached = [href url_a_bc]"
    by (simp add: abc_cached_def href_def url_a_bc_def)
  ultimately show ?thesis
    using abc_key abc_miss abc_hit by simp
qed

subsection \<open>Managed containers and static instantiation\<close>







lemma ManagedContainer_new_unset:
  assumes "ManagedContainer_ready rt fs u (Title t) tu path st = (Inr c, st')" and "c_newDir c = Some True"
  shows "shapeTreeUrl c = Undefined"
proof -
  have parse_newDir: "parseShapeTreeInstance rt a = Inr b \<Longrightarrow> c_newDir b = c_newDir a" for a b
    by (auto simp: parseShapeTreeInstance_def split: sum.splits)
  have ready_unset: "Container_ready fs u (Title t) st = (Inr a, s) \<Longrightarrow> shapeTreeUrl a = Undefined" for a s
    by (auto simp: Container_ready_def Container_new_def split: sum.splits prod.splits url_arg.splits if_splits)
  obtain r1 st1 where ready: "Container_ready fs u (Title t) st = (r1, st1)"
    by (cases "Container_ready fs u (Title t) st")
  show ?thesis
  proof (cases r1)
    case (Inl e)
    with assms(1) ready show ?thesis
      by (auto simp: ManagedContainer_ready_def Let_def split: sum.splits url_arg.splits option.splits)
  next
    case (Inr c1)
    with ready have u1: "shapeTreeUrl c1 = Undefined" by (auto dest: ready_unset)
    from assms ready Inr u1 show ?thesis
      by (auto simp: ManagedContainer_ready_def Let_def
          split: sum.splits url_arg.splits option.splits if_splits prod.splits
          dest!: parse_newDir)
  qed
qed


text \<open>
  C7 at a new directory: \<^verbatim>\<open>new ManagedContainer (url, title, shapeTreeUrl, '.')\<close> for
  a container that the storage has to make. Once \<^verbatim>\<open>ready\<close> has resolved the
  instance path and the instance root are set, and the field \<^verbatim>\<open>shapeTreeUrl\<close> is
  not: the constructor's \<^verbatim>\<open>this,shapeTreeUrl = shapeTreeUrl\<close> assigns no field.
\<close>

theorem ManagedContainer_new_shapeTreeUrl_unset:
  "case ManagedContainer_ready plain_runtime open_storage (UrlObject proj1_url) (Title ''Project 1'')
          (UrlObject tree_url) ''.'' apps_store of
     (Inr c, st') \<Rightarrow>
       c_newDir c = Some True \<and> shapeTreeUrl c = Undefined \<and> shapeTreeInstancePath c = Value ''.''
       \<and> shapeTreeInstanceRoot c = Value (tree_url\<lparr>hash := []\<rparr>)
   | _ \<Rightarrow> False"
  by code_simp





subsection \<open>Requests for what is not there\<close>

lemma throwIfNotFound_promise: "throwIfNotFound (StatPromise v) u method = Inr ()"
  by (simp add: throwIfNotFound_def)

lemma post_missing:
  "rstat fs requestUrl st = Inl e \<Longrightarrow>
   shapeTreeFetch rt fs noShapeTrees class_status nextFetch rest ''POST'' requestUrl st =
     (\<lparr>resp_status = 404,
       resp_error = Some (NotFoundError (href requestUrl) ''queried resource'' (''POST '' @ pathname requestUrl) 404)\<rparr>,
      st)"
  by (simp add: shapeTreeFetch_def rstatOrNull_def throwIfNotFound_def errorResponse_def)

text \<open>
  C8 at a pod without \<^verbatim>\<open>/Missing/\<close>. A \<^verbatim>\<open>POST\<close> to \<^verbatim>\<open>/Missing/\<close> is answered 404
  with the not-found error. A \<^verbatim>\<open>PUT\<close> of \<^verbatim>\<open>/Missing/notes\<close> is not: the check gets
  a promise, passes, and the request goes on to load the container, where the
  storage's own error makes the answer 500; built without ShapeTrees, it has the
  storage make \<^verbatim>\<open>/Missing/\<close> and answers as if the container had been there.
\<close>

theorem put_missing_parent_not_404:
  "rstat open_storage missing_url apps_store = Inl (Error ''ENOENT: no such file or directory'')
   \<and> parent_url missing_notes_url = missing_url
   \<and> shapeTreeFetch plain_runtime open_storage False (\<lambda>e. 422) forward carry_on ''POST'' missing_url apps_store =
       (\<lparr>resp_status = 404,
         resp_error = Some (NotFoundError (href missing_url) ''queried resource'' ''POST /Missing/'' 404)\<rparr>,
        apps_store)
   \<and> shapeTreeFetch plain_runtime open_storage False (\<lambda>e. 422) forward carry_on ''PUT'' missing_notes_url apps_store =
       (\<lparr>resp_status = 500, resp_error = Some (Error ''ENOENT: no such file or directory'')\<rparr>, apps_store)
   \<and> resp_status (fst (shapeTreeFetch plain_runtime open_storage True (\<lambda>e. 422) forward carry_on ''PUT''
         missing_notes_url apps_store)) = 201
   \<and> rstat open_storage missing_url (snd (shapeTreeFetch plain_runtime open_storage True (\<lambda>e. 422) forward carry_on
         ''PUT'' missing_notes_url apps_store)) = Inr True"
  by code_simp

subsection \<open>The lock of a container\<close>

lemma resolved_chain: "k \<le> length wl \<Longrightarrow> resolved wl (chain k) \<longleftrightarrow> (\<forall>j<k. wl ! j)"
  by (induction k) (auto simp: less_Suc_eq)

lemma serial_trace_Suc: "serial_trace (Suc n) = serial_trace n @ [Enter n, Leave n]"
  by (simp add: serial_trace_def)

lemma lock_inv_initial: "lock_inv initial"
  by (simp add: lock_inv_def initial_def Mutex_new_def serial_trace_def)


lemma released_Waiting: "c_phase c = Waiting \<Longrightarrow> \<not> released c"
  by (simp add: released_def)

lemma released_Holding: "c_phase c = Holding \<Longrightarrow> \<not> released c"
  by (simp add: released_def)

lemma released_stuck: "stuck c \<Longrightarrow> \<not> released c"
  by (auto simp: released_def stuck_def split: phase.splits)

lemma map_released_same:
  "i < length cs \<Longrightarrow> released c' = released (cs ! i) \<Longrightarrow> map released (cs[i := c']) = map released cs"
  by (rule nth_equalityI) (auto simp: nth_list_update)

lemma map_released_True:
  "i < length cs \<Longrightarrow> released c' \<Longrightarrow> map released (cs[i := c']) = (map released cs)[i := True]"
  by (rule nth_equalityI) (auto simp: nth_list_update)

lemma lock_inv_Call:
  assumes "lock_inv s" and "exec (Call operation) s = Some s'"
  shows "lock_inv s'"
proof -
  let ?cs = "l_calls s" and ?m = "l_mutex s"
  let ?new = "\<lparr>c_op = operation, c_willUnlock = m_locking ?m, c_unlock = length (m_willLock ?m), c_phase = Waiting\<rparr>"
  from assms(1) obtain n where wl: "m_willLock ?m = map released ?cs"
    and lk: "m_locking ?m = chain (length ?cs)"
    and ix: "\<forall>i<length ?cs. c_unlock (?cs ! i) = i \<and> c_willUnlock (?cs ! i) = chain i"
    and n: "n \<le> length ?cs"
    and rel: "\<forall>i<n. released (?cs ! i)"
    and wait: "\<forall>i<length ?cs. n < i \<longrightarrow> c_phase (?cs ! i) = Waiting"
    and tr: "(l_trace s = serial_trace n \<and> (n < length ?cs \<longrightarrow> c_phase (?cs ! n) = Waiting))
               \<or> (l_trace s = serial_trace n @ [Enter n] \<and> n < length ?cs
                   \<and> (c_phase (?cs ! n) = Holding \<or> stuck (?cs ! n)))"
    unfolding lock_inv_def Let_def by blast
  from assms(2) have s': "s' = s\<lparr>l_mutex := ?m\<lparr>m_locks := m_locks ?m + 1,
                                   m_willLock := m_willLock ?m @ [False],
                                   m_locking := Then (m_locking ?m) (length (m_willLock ?m))\<rparr>,
                      l_calls := ?cs @ [?new]\<rparr>"
    by (simp add: lock_def Let_def)
  have len: "length (m_willLock ?m) = length ?cs" by (simp add: wl)
  have a: "m_willLock (l_mutex s') = map released (l_calls s')"
    by (simp add: s' wl released_def)
  have b: "m_locking (l_mutex s') = chain (length (l_calls s'))"
    by (simp add: s' lk len)
  have c: "\<forall>i<length (l_calls s'). c_unlock (l_calls s' ! i) = i \<and> c_willUnlock (l_calls s' ! i) = chain i"
    using ix by (auto simp: s' nth_append len lk less_Suc_eq)
  have d: "n \<le> length (l_calls s')" using n by (simp add: s')
  have e: "\<forall>i<n. released (l_calls s' ! i)"
    using rel n by (simp add: s' nth_append)
  have f: "\<forall>i<length (l_calls s'). n < i \<longrightarrow> c_phase (l_calls s' ! i) = Waiting"
    using wait by (auto simp: s' nth_append less_Suc_eq)
  have g: "(l_trace s' = serial_trace n \<and> (n < length (l_calls s') \<longrightarrow> c_phase (l_calls s' ! n) = Waiting))
               \<or> (l_trace s' = serial_trace n @ [Enter n] \<and> n < length (l_calls s')
                   \<and> (c_phase (l_calls s' ! n) = Holding \<or> stuck (l_calls s' ! n)))"
    using tr n by (auto simp: s' nth_append)
  from a b c d e f g show ?thesis
    unfolding lock_inv_def Let_def by blast
qed

lemma lock_inv_Resume:
  assumes "lock_inv s" and "exec (Resume i) s = Some s'"
  shows "lock_inv s'"
proof -
  let ?cs = "l_calls s" and ?m = "l_mutex s"
  from assms(1) obtain n where wl: "m_willLock ?m = map released ?cs"
    and lk: "m_locking ?m = chain (length ?cs)"
    and ix: "\<forall>i<length ?cs. c_unlock (?cs ! i) = i \<and> c_willUnlock (?cs ! i) = chain i"
    and n: "n \<le> length ?cs"
    and rel: "\<forall>i<n. released (?cs ! i)"
    and wait: "\<forall>i<length ?cs. n < i \<longrightarrow> c_phase (?cs ! i) = Waiting"
    and tr: "(l_trace s = serial_trace n \<and> (n < length ?cs \<longrightarrow> c_phase (?cs ! n) = Waiting))
               \<or> (l_trace s = serial_trace n @ [Enter n] \<and> n < length ?cs
                   \<and> (c_phase (?cs ! n) = Holding \<or> stuck (?cs ! n)))"
    unfolding lock_inv_def Let_def by blast
  from assms(2) have i: "i < length ?cs" and w: "c_phase (?cs ! i) = Waiting"
    and res: "resolved (m_willLock ?m) (c_willUnlock (?cs ! i))"
    and s': "s' = s\<lparr>l_calls := ?cs[i := (?cs ! i)\<lparr>c_phase := Holding\<rparr>], l_trace := l_trace s @ [Enter i]\<rparr>"
    by (auto split: if_splits)
  from res ix i have "resolved (map released ?cs) (chain i)" by (simp add: wl)
  with i have earlier: "\<forall>j<i. released (?cs ! j)"
    by (simp add: resolved_chain)
  have "\<not> i < n" using rel w released_Waiting by blast
  moreover have "\<not> n < i"
  proof
    assume "n < i"
    with earlier have "released (?cs ! n)" by blast
    moreover from \<open>n < i\<close> i have "n < length ?cs" by simp
    ultimately show False using tr released_Waiting released_Holding released_stuck by blast
  qed
  ultimately have in': "i = n" by simp
  with tr w have tr1: "l_trace s = serial_trace n"
    by (auto simp: stuck_def)
  have a: "m_willLock (l_mutex s') = map released (l_calls s')"
    using i w by (simp add: s' wl map_released_same released_def)
  have b: "m_locking (l_mutex s') = chain (length (l_calls s'))"
    by (simp add: s' lk)
  have c: "\<forall>k<length (l_calls s'). c_unlock (l_calls s' ! k) = k \<and> c_willUnlock (l_calls s' ! k) = chain k"
    using ix i by (auto simp: s' nth_list_update)
  have d: "n \<le> length (l_calls s')" using n by (simp add: s')
  have e: "\<forall>k<n. released (l_calls s' ! k)"
    using rel in' by (simp add: s')
  have f: "\<forall>k<length (l_calls s'). n < k \<longrightarrow> c_phase (l_calls s' ! k) = Waiting"
    using wait in' by (simp add: s')
  have g: "l_trace s' = serial_trace n @ [Enter n] \<and> n < length (l_calls s')
                   \<and> (c_phase (l_calls s' ! n) = Holding \<or> stuck (l_calls s' ! n))"
    using tr1 in' i by (simp add: s')
  from a b c d e f g show ?thesis
    unfolding lock_inv_def Let_def by blast
qed

lemma lock_inv_Settle:
  assumes "lock_inv s" and "exec (Settle i ok) s = Some s'"
  shows "lock_inv s'"
proof -
  let ?cs = "l_calls s" and ?m = "l_mutex s"
  from assms(1) obtain n where wl: "m_willLock ?m = map released ?cs"
    and lk: "m_locking ?m = chain (length ?cs)"
    and ix: "\<forall>i<length ?cs. c_unlock (?cs ! i) = i \<and> c_willUnlock (?cs ! i) = chain i"
    and n: "n \<le> length ?cs"
    and rel: "\<forall>i<n. released (?cs ! i)"
    and wait: "\<forall>i<length ?cs. n < i \<longrightarrow> c_phase (?cs ! i) = Waiting"
    and tr: "(l_trace s = serial_trace n \<and> (n < length ?cs \<longrightarrow> c_phase (?cs ! n) = Waiting))
               \<or> (l_trace s = serial_trace n @ [Enter n] \<and> n < length ?cs
                   \<and> (c_phase (?cs ! n) = Holding \<or> stuck (?cs ! n)))"
    unfolding lock_inv_def Let_def by blast
  from assms(2) have i: "i < length ?cs" and h: "c_phase (?cs ! i) = Holding"
    by (auto split: if_splits)
  have "\<not> i < n" using rel h released_Holding by blast
  moreover have "\<not> n < i" using wait i h by auto
  ultimately have in': "i = n" by simp
  with tr h i have tr1: "l_trace s = serial_trace n @ [Enter n]"
    by auto
  show ?thesis
  proof (cases "releases (c_op (?cs ! i)) ok")
    case True
    with assms(2) i h ix have s': "s' = s\<lparr>l_mutex := unlockNext i ?m,
                         l_calls := ?cs[i := (?cs ! i)\<lparr>c_phase := Finished ok\<rparr>],
                         l_trace := l_trace s @ [Leave i]\<rparr>"
      by simp
    have a: "m_willLock (l_mutex s') = map released (l_calls s')"
      using i True by (simp add: s' unlockNext_def wl map_released_True released_def)
    have b: "m_locking (l_mutex s') = chain (length (l_calls s'))"
      by (simp add: s' lk unlockNext_def)
    have c: "\<forall>k<length (l_calls s'). c_unlock (l_calls s' ! k) = k \<and> c_willUnlock (l_calls s' ! k) = chain k"
      using ix i by (auto simp: s' nth_list_update)
    have d: "Suc n \<le> length (l_calls s')" using i in' by (simp add: s')
    have e: "\<forall>k<Suc n. released (l_calls s' ! k)"
      using rel in' i True by (auto simp: s' nth_list_update released_def less_Suc_eq)
    have f: "\<forall>k<length (l_calls s'). Suc n < k \<longrightarrow> c_phase (l_calls s' ! k) = Waiting"
      using wait in' by (simp add: s')
    have g: "l_trace s' = serial_trace (Suc n) \<and> (Suc n < length (l_calls s') \<longrightarrow> c_phase (l_calls s' ! Suc n) = Waiting)"
      using tr1 in' wait by (simp add: s' serial_trace_Suc)
    from a b c d e f g show ?thesis
      unfolding lock_inv_def Let_def by blast
  next
    case False
    with assms(2) i h have s': "s' = s\<lparr>l_calls := ?cs[i := (?cs ! i)\<lparr>c_phase := Finished ok\<rparr>]\<rparr>"
      by simp
    have a: "m_willLock (l_mutex s') = map released (l_calls s')"
      using i h False by (simp add: s' wl map_released_same released_def)
    have b: "m_locking (l_mutex s') = chain (length (l_calls s'))"
      by (simp add: s' lk)
    have c: "\<forall>k<length (l_calls s'). c_unlock (l_calls s' ! k) = k \<and> c_willUnlock (l_calls s' ! k) = chain k"
      using ix i by (auto simp: s' nth_list_update)
    have d: "n \<le> length (l_calls s')" using n by (simp add: s')
    have e: "\<forall>k<n. released (l_calls s' ! k)"
      using rel in' by (simp add: s')
    have f: "\<forall>k<length (l_calls s'). n < k \<longrightarrow> c_phase (l_calls s' ! k) = Waiting"
      using wait in' by (simp add: s')
    have g: "l_trace s' = serial_trace n @ [Enter n] \<and> n < length (l_calls s')
                   \<and> (c_phase (l_calls s' ! n) = Holding \<or> stuck (l_calls s' ! n))"
      using tr1 in' i False by (simp add: s' stuck_def)
    from a b c d e f g show ?thesis
      unfolding lock_inv_def Let_def by blast
  qed
qed

lemma lock_inv_exec: "lock_inv s \<Longrightarrow> exec e s = Some s' \<Longrightarrow> lock_inv s'"
  by (cases e) (blast intro: lock_inv_Call lock_inv_Resume lock_inv_Settle)+

lemma lock_inv_run: "lock_inv s \<Longrightarrow> run es s = Some s' \<Longrightarrow> lock_inv s'"
proof (induction es arbitrary: s)
  case Nil
  then show ?case by simp
next
  case (Cons e es)
  then show ?case
    by (auto split: option.splits dest: lock_inv_exec)
qed


text \<open>
  C2: at one container, after any sequence of calls, resumptions and
  settlements, the critical sections have run one after the other in the order
  in which the calls took the lock; the \<^verbatim>\<open>willUnlock\<close> of a call is resolved
  exactly when every earlier call has released the lock; no two calls are in
  their critical sections at once; and a \<^verbatim>\<open>write()\<close> that has finished, well or
  with an error, has released the lock.
\<close>

theorem mutex_fifo:
  assumes "run es initial = Some s"
  shows "(\<exists>n. l_trace s = serial_trace n \<or> l_trace s = serial_trace n @ [Enter n])
    \<and> (\<forall>i<length (l_calls s).
          resolved (m_willLock (l_mutex s)) (c_willUnlock (l_calls s ! i)) \<longleftrightarrow>
          (\<forall>j<i. m_willLock (l_mutex s) ! j))
    \<and> (\<forall>i<length (l_calls s). \<forall>j<length (l_calls s).
          c_phase (l_calls s ! i) = Holding \<and> c_phase (l_calls s ! j) = Holding \<longrightarrow> i = j)
    \<and> (\<forall>i<length (l_calls s). \<forall>ok.
          c_op (l_calls s ! i) = Write \<and> c_phase (l_calls s ! i) = Finished ok \<longrightarrow>
          m_willLock (l_mutex s) ! i)"
proof -
  let ?cs = "l_calls s" and ?m = "l_mutex s"
  from assms lock_inv_initial have "lock_inv s" by (blast intro: lock_inv_run)
  then obtain n where wl: "m_willLock ?m = map released ?cs"
    and ix: "\<forall>i<length ?cs. c_unlock (?cs ! i) = i \<and> c_willUnlock (?cs ! i) = chain i"
    and n: "n \<le> length ?cs"
    and rel: "\<forall>i<n. released (?cs ! i)"
    and wait: "\<forall>i<length ?cs. n < i \<longrightarrow> c_phase (?cs ! i) = Waiting"
    and tr: "(l_trace s = serial_trace n \<and> (n < length ?cs \<longrightarrow> c_phase (?cs ! n) = Waiting))
               \<or> (l_trace s = serial_trace n @ [Enter n] \<and> n < length ?cs
                   \<and> (c_phase (?cs ! n) = Holding \<or> stuck (?cs ! n)))"
    unfolding lock_inv_def Let_def by blast
  from tr have a: "\<exists>n. l_trace s = serial_trace n \<or> l_trace s = serial_trace n @ [Enter n]"
    by blast
  have b: "\<forall>i<length ?cs. resolved (m_willLock ?m) (c_willUnlock (?cs ! i)) \<longleftrightarrow> (\<forall>j<i. m_willLock ?m ! j)"
  proof (intro allI impI)
    fix i assume i: "i < length ?cs"
    then have "i \<le> length (m_willLock ?m)" by (simp add: wl)
    from resolved_chain [OF this] ix i
    show "resolved (m_willLock ?m) (c_willUnlock (?cs ! i)) \<longleftrightarrow> (\<forall>j<i. m_willLock ?m ! j)"
      by simp
  qed
  have only: "i = n" if "i < length ?cs" and "c_phase (?cs ! i) = Holding" for i
  proof -
    have "\<not> i < n" using rel that(2) released_Holding by blast
    moreover have "\<not> n < i" using wait that by auto
    ultimately show ?thesis by simp
  qed
  have c: "\<forall>i<length ?cs. \<forall>j<length ?cs.
          c_phase (?cs ! i) = Holding \<and> c_phase (?cs ! j) = Holding \<longrightarrow> i = j"
    using only by blast
  have d: "\<forall>i<length ?cs. \<forall>ok. c_op (?cs ! i) = Write \<and> c_phase (?cs ! i) = Finished ok \<longrightarrow> m_willLock ?m ! i"
    by (simp add: wl released_def releases_def)
  from a b c d show ?thesis by blast
qed

lemma two_writes:
  "\<exists>s. run [Call Write, Call Write, Resume 0, Settle 0 False, Resume 1] initial = Some s
       \<and> l_trace s = [Enter 0, Leave 0, Enter 1]
       \<and> m_willLock (l_mutex s) = [True, False]
       \<and> c_phase (l_calls s ! 0) = Finished False \<and> c_op (l_calls s ! 0) = Write
       \<and> length (l_calls s) = 2"
  by (simp add: initial_def Mutex_new_def lock_def unlockNext_def releases_def)

lemma second_write_waits:
  "run [Call Write, Call Write, Resume 1] initial = None"
  by (simp add: initial_def Mutex_new_def lock_def)

theorem mutex_fifo_witness:
  "\<exists>s. run [Call Write, Call Write, Resume 0, Settle 0 False, Resume 1] initial = Some s
       \<and> l_trace s = [Enter 0, Leave 0, Enter 1]
       \<and> (\<exists>n. l_trace s = serial_trace n \<or> l_trace s = serial_trace n @ [Enter n])
       \<and> c_op (l_calls s ! 0) = Write \<and> c_phase (l_calls s ! 0) = Finished False
       \<and> m_willLock (l_mutex s) ! 0
       \<and> run [Call Write, Call Write, Resume 1] initial = None"
proof -
  from two_writes obtain s
    where r: "run [Call Write, Call Write, Resume 0, Settle 0 False, Resume 1] initial = Some s"
      and t: "l_trace s = [Enter 0, Leave 0, Enter 1]"
      and w: "c_op (l_calls s ! 0) = Write" "c_phase (l_calls s ! 0) = Finished False"
      and l: "length (l_calls s) = 2"
    by blast
  from mutex_fifo [OF r]
  have serial: "\<exists>n. l_trace s = serial_trace n \<or> l_trace s = serial_trace n @ [Enter n]"
    and writes: "\<forall>i<length (l_calls s). \<forall>ok.
          c_op (l_calls s ! i) = Write \<and> c_phase (l_calls s ! i) = Finished ok \<longrightarrow>
          m_willLock (l_mutex s) ! i"
    by blast+
  from l have "0 < length (l_calls s)" by simp
  with writes w have "m_willLock (l_mutex s) ! 0" by blast
  with serial r t w second_write_waits show ?thesis by blast
qed

end
